theory Spec2Isabelle
  imports Main "HOL-Library.List_Lexorder" "HOL-Library.Char_ord"
begin

section \<open>Data model\<close>

text \<open>
  The controller in \<^verbatim>\<open>internal/controller/postgrescluster/pgbackrest.go\<close> reads labels of
  Kubernetes objects through the keys declared in the \<^verbatim>\<open>naming\<close> package. Only the
  identity of a key matters to the code, so each key is a constructor; \<open>LabelOther\<close>
  stands for any label that the controller never asks for. A label set is an association
  list, read as Go reads a map: an absent key yields the empty string.
\<close>

datatype label =
    LabelPGBackRestRepo
  | LabelPGBackRestConfig
  | LabelPGBackRestDedicated
  | LabelPGBackRestRepoHost
  | LabelPGBackRestRepoVolume
  | LabelPGBackRestBackup
  | LabelPGBackRestCronJob
  | LabelInstance
  | LabelOther string

type_synonym labels = "(label \<times> string) list"

definition getLabel :: "labels \<Rightarrow> label \<Rightarrow> string" where
  "getLabel m k = (case map_of m k of None \<Rightarrow> [] | Some v \<Rightarrow> v)"

definition hasLabel :: "labels \<Rightarrow> label \<Rightarrow> bool" where
  "hasLabel m k = (map_of m k \<noteq> None)"

text \<open>\<^verbatim>\<open>v1beta1.RepoStatus\<close>: one entry of \<^verbatim>\<open>Status.PGBackRest.Repos\<close>.\<close>

record RepoStatus =
  Bound :: bool
  Name :: string
  VolumeName :: string
  RepoOptionsHash :: string
  StanzaCreated :: bool
  ReplicaCreateBackupComplete :: bool

text \<open>The part of a \<^verbatim>\<open>v1.PersistentVolumeClaim\<close> that the controller reads.\<close>

datatype PersistentVolumeClaimPhase = ClaimPending | ClaimBound | ClaimLost | ClaimPhaseEmpty

record PersistentVolumeClaim =
  pvc_Labels :: labels
  pvc_VolumeName :: string
  pvc_Phase :: PersistentVolumeClaimPhase

section \<open>getRepoVolumeStatus\<close>

text \<open>
  The first loop of \<^verbatim>\<open>getRepoVolumeStatus\<close> visits every reconciled volume \<open>rv\<close>; its inner
  loop walks the prior status list and stops at the first entry named like the volume's
  repository label. \<open>carryRepoVolStatus\<close> is that inner loop: \<open>Some\<close> is the entry it
  appends, \<open>None\<close> means the flag \<^verbatim>\<open>newRepoVolStatus\<close> is still true when it ends.
\<close>

fun carryRepoVolStatus ::
  "PersistentVolumeClaim \<Rightarrow> string \<Rightarrow> RepoStatus list \<Rightarrow> RepoStatus option" where
  "carryRepoVolStatus rv replicaCreateRepoName [] = None"
| "carryRepoVolStatus rv replicaCreateRepoName (rs # repoStatus) =
    (if Name rs = getLabel (pvc_Labels rv) LabelPGBackRestRepo then
       (let rs1 = (if ReplicaCreateBackupComplete rs \<and> Name rs \<noteq> replicaCreateRepoName
                   then rs\<lparr>ReplicaCreateBackupComplete := False\<rparr> else rs);
            rs2 = (if Bound rs1 \<noteq> (pvc_Phase rv = ClaimBound)
                   then rs1\<lparr>Bound := (pvc_Phase rv = ClaimBound)\<rparr> else rs1)
        in Some rs2)
     else carryRepoVolStatus rv replicaCreateRepoName repoStatus)"

definition repoVolStatus ::
  "RepoStatus list \<Rightarrow> string \<Rightarrow> PersistentVolumeClaim \<Rightarrow> RepoStatus" where
  "repoVolStatus repoStatus replicaCreateRepoName rv =
    (case carryRepoVolStatus rv replicaCreateRepoName repoStatus of
       Some rs \<Rightarrow> rs
     | None \<Rightarrow> \<lparr>Bound = (pvc_Phase rv = ClaimBound),
                 Name = getLabel (pvc_Labels rv) LabelPGBackRestRepo,
                 VolumeName = pvc_VolumeName rv,
                 RepoOptionsHash = [],
                 StanzaCreated = False,
                 ReplicaCreateBackupComplete = False\<rparr>)"

text \<open>
  The second loop ranges over the map \<^verbatim>\<open>configHashes\<close> (repository name to hash of its
  external configuration). \<open>carryExtRepoStatus\<close> is its inner loop.
\<close>

fun carryExtRepoStatus ::
  "string \<Rightarrow> string \<Rightarrow> string \<Rightarrow> RepoStatus list \<Rightarrow> RepoStatus option" where
  "carryExtRepoStatus repoName hash replicaCreateRepoName [] = None"
| "carryExtRepoStatus repoName hash replicaCreateRepoName (rs # repoStatus) =
    (if Name rs = repoName then
       (let rs1 = (if ReplicaCreateBackupComplete rs \<and> Name rs \<noteq> replicaCreateRepoName
                   then rs\<lparr>ReplicaCreateBackupComplete := False\<rparr> else rs);
            rs2 = (if RepoOptionsHash rs1 \<noteq> hash
                   then rs1\<lparr>RepoOptionsHash := hash, StanzaCreated := False,
                            ReplicaCreateBackupComplete := False\<rparr>
                   else rs1)
        in Some rs2)
     else carryExtRepoStatus repoName hash replicaCreateRepoName repoStatus)"

definition extRepoStatus ::
  "RepoStatus list \<Rightarrow> string \<Rightarrow> string \<times> string \<Rightarrow> RepoStatus" where
  "extRepoStatus repoStatus replicaCreateRepoName kv =
    (case carryExtRepoStatus (fst kv) (snd kv) replicaCreateRepoName repoStatus of
       Some rs \<Rightarrow> rs
     | None \<Rightarrow> \<lparr>Bound = False,
                 Name = fst kv,
                 VolumeName = [],
                 RepoOptionsHash = snd kv,
                 StanzaCreated = False,
                 ReplicaCreateBackupComplete = False\<rparr>)"

text \<open>
  The Go map \<^verbatim>\<open>configHashes\<close> is an association list whose order is the order in which
  the \<^verbatim>\<open>range\<close> loop happens to visit the keys; the theorems hold for every order. That
  the keys of a map are unique is the hypothesis \<open>distinct (map fst configHashes)\<close>
  wherever it is needed. \<^verbatim>\<open>sort.Slice\<close> orders the result by name with the bytewise order
  of Go strings, which is the lexicographic order of \<open>string\<close>; it does not promise to be
  stable, and \<^const>\<open>sort_key\<close> is, which can only matter for the relative position of
  entries with equal names. The theorems below speak of the entries of the result, not of
  their positions.
\<close>

definition getRepoVolumeStatus ::
  "RepoStatus list \<Rightarrow> PersistentVolumeClaim list \<Rightarrow> (string \<times> string) list \<Rightarrow> string
     \<Rightarrow> RepoStatus list" where
  "getRepoVolumeStatus repoStatus repoVolumes configHashes replicaCreateRepoName =
     sort_key Name
       (map (repoVolStatus repoStatus replicaCreateRepoName) repoVolumes @
        map (extRepoStatus repoStatus replicaCreateRepoName) configHashes)"

text \<open>
  The prior entry that an inner loop carries over for a repository name: the first one
  with that name. \<open>pvcRepoName\<close> is the name under which a volume is looked up.
\<close>

definition carriedOver :: "RepoStatus list \<Rightarrow> string \<Rightarrow> RepoStatus option" where
  "carriedOver repoStatus repoName = find (\<lambda>rs. Name rs = repoName) repoStatus"

definition pvcRepoName :: "PersistentVolumeClaim \<Rightarrow> string" where
  "pvcRepoName rv = getLabel (pvc_Labels rv) LabelPGBackRestRepo"

section \<open>Conditions\<close>

text \<open>
  \<^verbatim>\<open>metav1.Condition\<close> and the helpers of \<^verbatim>\<open>k8s.io/apimachinery/pkg/api/meta\<close> that the
  controller calls. \<^verbatim>\<open>LastTransitionTime\<close> is wall-clock time and is left out; apart from
  it, \<^verbatim>\<open>SetStatusCondition\<close> overwrites status, reason, message and observed generation
  of the first condition of the same type, or appends the new condition when there is
  none.
\<close>

datatype ConditionStatus = ConditionTrue | ConditionFalse | ConditionUnknown

record Condition =
  cond_Type :: string
  cond_Status :: ConditionStatus
  cond_ObservedGeneration :: int
  cond_Reason :: string
  cond_Message :: string

definition ConditionReplicaCreate :: string where
  "ConditionReplicaCreate = ''PGBackRestReplicaCreate''"

definition ConditionReplicaRepoReady :: string where
  "ConditionReplicaRepoReady = ''PGBackRestReplicaRepoReady''"

definition ConditionRepoHostReady :: string where
  "ConditionRepoHostReady = ''PGBackRestRepoHostReady''"

definition EventUnableToCreateStanzas :: string where
  "EventUnableToCreateStanzas = ''UnableToCreateStanzas''"

definition EventStanzasCreated :: string where
  "EventStanzasCreated = ''StanzasCreated''"

definition FindStatusCondition :: "Condition list \<Rightarrow> string \<Rightarrow> Condition option" where
  "FindStatusCondition conditions conditionType =
     find (\<lambda>c. cond_Type c = conditionType) conditions"

fun SetStatusCondition :: "Condition list \<Rightarrow> Condition \<Rightarrow> Condition list" where
  "SetStatusCondition [] newCondition = [newCondition]"
| "SetStatusCondition (c # conditions) newCondition =
     (if cond_Type c = cond_Type newCondition
      then c\<lparr>cond_Status := cond_Status newCondition,
             cond_Reason := cond_Reason newCondition,
             cond_Message := cond_Message newCondition,
             cond_ObservedGeneration := cond_ObservedGeneration newCondition\<rparr> # conditions
      else c # SetStatusCondition conditions newCondition)"

definition RemoveStatusCondition :: "Condition list \<Rightarrow> string \<Rightarrow> Condition list" where
  "RemoveStatusCondition conditions conditionType =
     filter (\<lambda>c. cond_Type c \<noteq> conditionType) conditions"

section \<open>The cluster, the API server and the trace of a reconcile\<close>

text \<open>
  The fields of \<^verbatim>\<open>v1beta1.PostgresCluster\<close> that the pgBackRest controller reads or
  writes. \<^verbatim>\<open>Status.PGBackRest\<close> is a pointer in Go: \<open>status_PGBackRest_nil\<close> says that it
  is nil, and \<open>status_Repos\<close> and \<open>status_RepoHost\<close> are the fields of the status it points
  to. \<^verbatim>\<open>reconcilePGBackRest\<close> allocates an empty status in place of a nil one before it
  does anything else, so the functions that it calls never meet a nil status: they read
  and write the two fields and leave \<open>status_PGBackRest_nil\<close> alone.
\<close>

datatype annotation = PGBackRestCurrentConfig | PGBackRestConfigHash | AnnotationOther string

type_synonym annotations = "(annotation \<times> string) list"

definition getAnnotation :: "annotations \<Rightarrow> annotation \<Rightarrow> string" where
  "getAnnotation m k = (case map_of m k of None \<Rightarrow> [] | Some v \<Rightarrow> v)"

record PGBackRestBackupSchedules =
  Full :: "string option"
  Differential :: "string option"
  Incremental :: "string option"

record PGBackRestRepo =
  repo_Name :: string
  repo_Volume :: bool
  repo_BackupSchedules :: "PGBackRestBackupSchedules option"

record PGBackRestRepoHost =
  rh_Dedicated :: bool

record RepoHostStatus =
  rhs_Ready :: bool

record PostgresCluster =
  pc_Name :: string
  pc_Namespace :: string
  pc_Generation :: int
  spec_Metadata_Labels :: labels
  spec_Metadata_Annotations :: annotations
  spec_PGBackRest_Metadata_Labels :: labels
  spec_PGBackRest_Metadata_Annotations :: annotations
  spec_Repos :: "PGBackRestRepo list"
  spec_RepoHost :: "PGBackRestRepoHost option"
  status_Conditions :: "Condition list"
  status_Repos :: "RepoStatus list"
  status_RepoHost :: "RepoHostStatus option"
  status_PGBackRest_nil :: bool

text \<open>
  Objects of the API server. One record serves for the unstructured items that the
  ownership sweep lists and for the typed \<^verbatim>\<open>batchv1.Job\<close>: name, namespace, labels and
  annotations, whether \<^verbatim>\<open>metav1.IsControlledBy\<close> holds of it and the cluster, and what the
  helpers \<^verbatim>\<open>jobFailed\<close> and \<^verbatim>\<open>jobCompleted\<close> (defined elsewhere in the package) answer
  for it.
\<close>

record Object =
  obj_Name :: string
  obj_Namespace :: string
  obj_Labels :: labels
  obj_Annotations :: annotations
  obj_ControlledBy :: bool
  obj_JobFailed :: bool
  obj_JobCompleted :: bool

record Pod =
  pod_Name :: string
  pod_Labels :: labels

datatype error = Error string

datatype selector = PGBackRestDedicatedSelector string | ClusterPrimarySelector string

datatype container = PGBackRestRepoContainerName | ContainerDatabase

datatype EventType = EventTypeNormal | EventTypeWarning

text \<open>The job specification that \<^verbatim>\<open>generateBackupJobSpecIntent\<close> fills in.\<close>

record BackupJobSpec =
  js_Labels :: labels
  js_Command :: string
  js_CommandOpts :: string
  js_CompareHash :: string
  js_Container :: container
  js_Namespace :: string
  js_Selector :: selector
  js_ServiceAccountName :: string
  js_ConfigName :: string

text \<open>
  Every call that leaves the process, and every write to the condition ledger, is
  appended to a trace, in the order of the calls. A sub-step of \<^verbatim>\<open>reconcilePGBackRest\<close>
  leaves \<open>SubStep\<close> with its name when it is entered. Every delete of the file is issued
  with background propagation, so \<open>Delete\<close> carries the object alone.
\<close>

datatype action =
    ListObjects string
  | ListPods selector
  | Delete Object
  | StanzaCreateExec string container string
  | ApplyJob Object BackupJobSpec
  | Event EventType string string
  | LedgerUpsert Condition
  | SubStep string

record rstate =
  cluster :: PostgresCluster
  log :: "action list"

text \<open>
  What \<^verbatim>\<open>pgbackrest.go\<close> takes from other packages is a parameter. The answers of the API server and of the
  command run in the pod may depend on everything done so far, so each takes the trace
  at the time of the call. \<open>ClusterBootstrapped\<close>, \<open>DedicatedRepoHostEnabled\<close> and
  \<open>RepoHostEnabled\<close> are what \<^verbatim>\<open>patroni.ClusterBootstrapped\<close>,
  \<^verbatim>\<open>pgbackrest.DedicatedRepoHostEnabled\<close> and \<^verbatim>\<open>pgbackrest.RepoHostEnabled\<close> return for the
  cluster; they read the specification and the Patroni status, which the functions below
  do not write. \<open>StanzaCreate\<close> is \<^verbatim>\<open>pgbackrest.Executor(exec).StanzaCreate\<close> with its pair of
  results.
\<close>

record env =
  ClusterBootstrapped :: bool
  DedicatedRepoHostEnabled :: bool
  RepoHostEnabled :: bool
  CMRepoKey :: string
  DefaultStanzaName :: string
  LabelSelectorAsSelector :: "string \<Rightarrow> error option"
  Client_List_Pods :: "action list \<Rightarrow> selector \<Rightarrow> error + Pod list"
  StanzaCreate :: "action list \<Rightarrow> string \<Rightarrow> container \<Rightarrow> string \<Rightarrow> bool \<times> error option"
  Client_Delete :: "action list \<Rightarrow> Object \<Rightarrow> error option"
  PGBackRestBackupJob :: "string \<times> string"
  PGBackRestBackupJobLabels :: "string \<Rightarrow> string \<Rightarrow> labels"
  AddConfigsToPod :: "string \<Rightarrow> error option"
  SetControllerReference :: "Object \<Rightarrow> error option"
  apply_Job :: "action list \<Rightarrow> Object \<Rightarrow> BackupJobSpec \<Rightarrow> error option"

definition record_action :: "action \<Rightarrow> rstate \<Rightarrow> rstate" where
  "record_action a s = s\<lparr>log := log s @ [a]\<rparr>"

definition upsertCondition :: "Condition \<Rightarrow> rstate \<Rightarrow> rstate" where
  "upsertCondition c s =
     s\<lparr>cluster := (cluster s)\<lparr>status_Conditions :=
                     SetStatusCondition (status_Conditions (cluster s)) c\<rparr>,
       log := log s @ [LedgerUpsert c]\<rparr>"

section \<open>getPGBackRestExecSelector\<close>

definition getPGBackRestExecSelector ::
  "env \<Rightarrow> PostgresCluster \<Rightarrow> error + (selector \<times> container)" where
  "getPGBackRestExecSelector env postgresCluster =
    (let clusterName = pc_Name postgresCluster;
         dedicatedEnabled = DedicatedRepoHostEnabled env;
         repoHostEnabled = RepoHostEnabled env
     in if dedicatedEnabled
        then Inr (PGBackRestDedicatedSelector clusterName, PGBackRestRepoContainerName)
        else (case LabelSelectorAsSelector env clusterName of
                Some err \<Rightarrow> Inl err
              | None \<Rightarrow>
                  Inr (ClusterPrimarySelector clusterName,
                       if repoHostEnabled then PGBackRestRepoContainerName
                       else ContainerDatabase)))"

section \<open>reconcileStanzaCreate\<close>

text \<open>
  The readiness gate of the dedicated repository host, as both \<^verbatim>\<open>reconcileStanzaCreate\<close>
  and \<^verbatim>\<open>reconcileReplicaCreateBackup\<close> compute it: true unless a \<^verbatim>\<open>RepoHostReady\<close>
  condition is found whose status is not true.
\<close>

definition dedicatedRepoReady :: "Condition list \<Rightarrow> bool" where
  "dedicatedRepoReady conditions =
    (case FindStatusCondition conditions ConditionRepoHostReady of
       None \<Rightarrow> True
     | Some condition \<Rightarrow> cond_Status condition = ConditionTrue)"

text \<open>
  The deferred function of \<^verbatim>\<open>reconcileStanzaCreate\<close>. It returns at once when the
  specification has no repository; otherwise it looks for the status entry named like
  the repository at index 0 and upserts \<^verbatim>\<open>ReplicaRepoReady\<close>.
\<close>

definition replicaRepoReadyCondition :: "PostgresCluster \<Rightarrow> string \<Rightarrow> Condition" where
  "replicaRepoReadyCondition postgresCluster replicaCreateRepoName =
    (case find (\<lambda>r. Name r = replicaCreateRepoName) (status_Repos postgresCluster) of
       None \<Rightarrow>
         \<lparr>cond_Type = ConditionReplicaRepoReady, cond_Status = ConditionUnknown,
          cond_ObservedGeneration = pc_Generation postgresCluster,
          cond_Reason = ''RepoStatusMissing'',
          cond_Message = ''Status is missing for the replica creation repo''\<rparr>
     | Some replicaCreateRepoStatus \<Rightarrow>
         if StanzaCreated replicaCreateRepoStatus
         then \<lparr>cond_Type = ConditionReplicaRepoReady, cond_Status = ConditionTrue,
               cond_ObservedGeneration = pc_Generation postgresCluster,
               cond_Reason = ''StanzaCreated'',
               cond_Message = ''pgBackRest replica create repo is ready for backups''\<rparr>
         else \<lparr>cond_Type = ConditionReplicaRepoReady, cond_Status = ConditionFalse,
               cond_ObservedGeneration = pc_Generation postgresCluster,
               cond_Reason = ''StanzaNotCreated'',
               cond_Message = ''pgBackRest replica create repo is not ready for backups''\<rparr>)"

definition setReplicaRepoReady :: "rstate \<Rightarrow> rstate" where
  "setReplicaRepoReady s =
    (case spec_Repos (cluster s) of
       [] \<Rightarrow> s
     | repo # _ \<Rightarrow> upsertCondition (replicaRepoReadyCondition (cluster s) (repo_Name repo)) s)"

text \<open>
  The body of \<^verbatim>\<open>reconcileStanzaCreate\<close>, from the bootstrap test to the last return. The
  loop over the status entries that clears \<^verbatim>\<open>stanzasCreated\<close> at the first entry without
  a stanza is \<^const>\<open>list_all\<close>.
\<close>

definition stanzaCreate_body :: "env \<Rightarrow> string \<Rightarrow> rstate \<Rightarrow> (bool \<times> error option) \<times> rstate" where
  "stanzaCreate_body env configHash s =
    (let postgresCluster = cluster s;
         clusterBootstrapped = ClusterBootstrapped env;
         dedicatedReady = dedicatedRepoReady (status_Conditions postgresCluster);
         stanzasCreated = list_all StanzaCreated (status_Repos postgresCluster)
     in if \<not> clusterBootstrapped \<or> \<not> dedicatedReady \<or> stanzasCreated
        then ((False, None), s)
        else
          (case getPGBackRestExecSelector env postgresCluster of
             Inl err \<Rightarrow> ((False, Some err), s)
           | Inr (selector, containerName) \<Rightarrow>
              (let s1 = record_action (ListPods selector) s in
               case Client_List_Pods env (log s) selector of
                 Inl err \<Rightarrow> ((False, Some err), s1)
               | Inr pods \<Rightarrow>
                  if length pods \<noteq> 1
                  then ((False, Some (Error
                    ''invalid number of Pods found when attempting to create stanzas'')), s1)
                  else
                    (let podName = pod_Name (hd pods);
                         s2 = record_action (StanzaCreateExec podName containerName configHash) s1
                     in case StanzaCreate env (log s1) podName containerName configHash of
                          (_, Some (Error msg)) \<Rightarrow>
                            ((False, Some (Error msg)),
                             record_action (Event EventTypeWarning EventUnableToCreateStanzas msg) s2)
                        | (configHashMismatch, None) \<Rightarrow>
                            if configHashMismatch then ((True, None), s2)
                            else
                              (let s3 = record_action (Event EventTypeNormal EventStanzasCreated
                                   ''pgBackRest stanza creation completed successfully'') s2
                               in ((False, None),
                                   s3\<lparr>cluster := (cluster s3)\<lparr>status_Repos :=
                                        map (\<lambda>r. r\<lparr>StanzaCreated := True\<rparr>)
                                            (status_Repos (cluster s3))\<rparr>\<rparr>))))))"

definition reconcileStanzaCreate ::
  "env \<Rightarrow> string \<Rightarrow> rstate \<Rightarrow> (bool \<times> error option) \<times> rstate" where
  "reconcileStanzaCreate env configHash s =
    (case stanzaCreate_body env configHash s of
       (result, s') \<Rightarrow> (result, setReplicaRepoReady s'))"

section \<open>reconcileReplicaCreateBackup\<close>

text \<open>
  \<^verbatim>\<open>regexRepoIndex\<close> is the pattern \<^verbatim>\<open>\d+\<close>; \<^verbatim>\<open>FindString\<close> returns the leftmost
  longest run of ASCII digits, or the empty string. \<^verbatim>\<open>naming.Merge\<close> joins label sets,
  a later set winning over an earlier one.
\<close>

definition isDigit :: "char \<Rightarrow> bool" where
  "isDigit c = (CHR ''0'' \<le> c \<and> c \<le> CHR ''9'')"

definition regexRepoIndex_FindString :: "string \<Rightarrow> string" where
  "regexRepoIndex_FindString s = takeWhile isDigit (dropWhile (\<lambda>c. \<not> isDigit c) s)"

definition Merge :: "('k \<times> string) list list \<Rightarrow> ('k \<times> string) list" where
  "Merge sets = concat (rev sets)"

definition generateBackupJobSpecIntent ::
  "env \<Rightarrow> PostgresCluster \<Rightarrow> selector \<Rightarrow> container \<Rightarrow> string \<Rightarrow> string \<Rightarrow> string \<Rightarrow> labels
     \<Rightarrow> error + BackupJobSpec" where
  "generateBackupJobSpecIntent env postgresCluster selector containerName repoName
       serviceAccountName configName labels =
    (let repoIndex = regexRepoIndex_FindString repoName;
         jobSpec = \<lparr>js_Labels = labels,
                    js_Command = ''backup'',
                    js_CommandOpts =
                      (''--stanza='' @ DefaultStanzaName env) @ '' '' @ (''--repo='' @ repoIndex),
                    js_CompareHash = ''true'',
                    js_Container = containerName,
                    js_Namespace = pc_Namespace postgresCluster,
                    js_Selector = selector,
                    js_ServiceAccountName = serviceAccountName,
                    js_ConfigName = configName\<rparr>
     in case AddConfigsToPod env configName of
          Some err \<Rightarrow> Inl err
        | None \<Rightarrow> Inr jobSpec)"

text \<open>
  A Go function returns or panics. \<^verbatim>\<open>reconcileReplicaCreateBackup\<close> panics when it
  reaches the creation of a job with a nil service account, or without an existing job
  and with no repository in the specification (\<^verbatim>\<open>Repos[0]\<close>); its deferred function
  runs in both cases.
\<close>

datatype 'a outcome = Return 'a | Panic

text \<open>
  \<^verbatim>\<open>replicaCreateRepoStatus\<close> points into \<^verbatim>\<open>Status.PGBackRest.Repos\<close>: the index of the
  first entry with the name of the replica-create repository, if there is one.
\<close>

fun repoStatusIndex :: "string \<Rightarrow> RepoStatus list \<Rightarrow> nat option" where
  "repoStatusIndex replicaCreateRepoName [] = None"
| "repoStatusIndex replicaCreateRepoName (r # repos) =
     (if Name r = replicaCreateRepoName then Some 0
      else map_option Suc (repoStatusIndex replicaCreateRepoName repos))"

text \<open>The deferred function of \<^verbatim>\<open>reconcileReplicaCreateBackup\<close>.\<close>

definition replicaCreateCondition :: "PostgresCluster \<Rightarrow> nat option \<Rightarrow> Condition" where
  "replicaCreateCondition postgresCluster replicaCreateRepoStatus =
    (case replicaCreateRepoStatus of
       None \<Rightarrow>
         \<lparr>cond_Type = ConditionReplicaCreate, cond_Status = ConditionUnknown,
          cond_ObservedGeneration = pc_Generation postgresCluster,
          cond_Reason = ''RepoStatusMissing'',
          cond_Message = ''Status is missing for the replica create repo''\<rparr>
     | Some i \<Rightarrow>
         if ReplicaCreateBackupComplete (status_Repos postgresCluster ! i)
         then \<lparr>cond_Type = ConditionReplicaCreate, cond_Status = ConditionTrue,
               cond_ObservedGeneration = pc_Generation postgresCluster,
               cond_Reason = ''RepoBackupComplete'',
               cond_Message = ''pgBackRest replica creation is now possible''\<rparr>
         else \<lparr>cond_Type = ConditionReplicaCreate, cond_Status = ConditionFalse,
               cond_ObservedGeneration = pc_Generation postgresCluster,
               cond_Reason = ''RepoBackupNotComplete'',
               cond_Message = ''pgBackRest replica creation is not currently possible''\<rparr>)"

definition setReplicaCreate :: "nat option \<Rightarrow> rstate \<Rightarrow> rstate" where
  "setReplicaCreate replicaCreateRepoStatus s =
     upsertCondition (replicaCreateCondition (cluster s) replicaCreateRepoStatus) s"

text \<open>
  The block guarded by \<^verbatim>\<open>len(replicaCreateBackupJobs) > 0\<close>, for the job at index 0.
  \<open>Some r\<close> is a return of \<open>r\<close> from the function; \<open>None\<close> falls through to the code after
  the block.
\<close>

definition replicaRepoReady :: "Condition list \<Rightarrow> bool" where
  "replicaRepoReady conditions =
    (case FindStatusCondition conditions ConditionReplicaRepoReady of
       None \<Rightarrow> False
     | Some condition \<Rightarrow> cond_Status condition = ConditionTrue)"

definition jobDrifted :: "string \<Rightarrow> string \<Rightarrow> string \<Rightarrow> Object \<Rightarrow> bool" where
  "jobDrifted configHash replicaCreateRepoName configName job =
    (let failed = obj_JobFailed job;
         replicaCreateRepoChanged =
           (replicaCreateRepoName \<noteq> getLabel (obj_Labels job) LabelPGBackRestRepo)
     in failed \<or> replicaCreateRepoChanged \<or>
        getAnnotation (obj_Annotations job) PGBackRestCurrentConfig \<noteq> configName \<or>
        getAnnotation (obj_Annotations job) PGBackRestConfigHash \<noteq> configHash)"

definition reconcileExistingJob ::
  "env \<Rightarrow> string \<Rightarrow> string \<Rightarrow> string \<Rightarrow> bool \<Rightarrow> bool \<Rightarrow> nat \<Rightarrow> Object \<Rightarrow> rstate
     \<Rightarrow> error option option \<times> rstate" where
  "reconcileExistingJob env configHash replicaCreateRepoName configName dedicatedReady
       replicaReady i job s =
    (let failed = obj_JobFailed job;
         completed = obj_JobCompleted job;
         waiting = ((\<not> completed \<and> \<not> failed) \<and> (\<not> dedicatedReady \<or> \<not> replicaReady))
     in case (if waiting then Client_Delete env (log s) job else None) of
          Some err \<Rightarrow> (Some (Some err), record_action (Delete job) s)
        | None \<Rightarrow>
           (let s1 = (if waiting then record_action (Delete job) s else s) in
            if jobDrifted configHash replicaCreateRepoName configName job
            then (case Client_Delete env (log s1) job of
                    Some err \<Rightarrow> (Some (Some err), record_action (Delete job) s1)
                  | None \<Rightarrow> (Some None, record_action (Delete job) s1))
            else if completed
            then (Some None,
                  s1\<lparr>cluster := (cluster s1)\<lparr>status_Repos :=
                       (status_Repos (cluster s1))
                         [i := (status_Repos (cluster s1) ! i)
                                 \<lparr>ReplicaCreateBackupComplete := True\<rparr>]\<rparr>\<rparr>)
            else (None, s1)))"

text \<open>
  The code after the block: nothing is created unless both gates hold; otherwise the job
  is built, from the existing job when there is one, and applied.
\<close>

definition backupJobIntent ::
  "env \<Rightarrow> PostgresCluster \<Rightarrow> string \<Rightarrow> string \<Rightarrow> Object option \<Rightarrow> Object outcome" where
  "backupJobIntent env postgresCluster configHash configName job =
    (case job of
       Some j \<Rightarrow>
         Return \<lparr>obj_Name = obj_Name j,
                 obj_Namespace = obj_Namespace j,
                 obj_Labels = Merge [spec_Metadata_Labels postgresCluster,
                                     spec_PGBackRest_Metadata_Labels postgresCluster,
                                     obj_Labels j],
                 obj_Annotations = Merge [spec_Metadata_Annotations postgresCluster,
                                          spec_PGBackRest_Metadata_Annotations postgresCluster,
                                          obj_Annotations j],
                 obj_ControlledBy = False,
                 obj_JobFailed = False,
                 obj_JobCompleted = False\<rparr>
     | None \<Rightarrow>
        (case spec_Repos postgresCluster of
           [] \<Rightarrow> Panic
         | repo # _ \<Rightarrow>
             Return \<lparr>obj_Name = fst (PGBackRestBackupJob env),
                     obj_Namespace = snd (PGBackRestBackupJob env),
                     obj_Labels = Merge [spec_Metadata_Labels postgresCluster,
                                         spec_PGBackRest_Metadata_Labels postgresCluster,
                                         PGBackRestBackupJobLabels env (pc_Name postgresCluster)
                                           (repo_Name repo)],
                     obj_Annotations = Merge [spec_Metadata_Annotations postgresCluster,
                                              spec_PGBackRest_Metadata_Annotations postgresCluster,
                                              [(PGBackRestCurrentConfig, configName),
                                               (PGBackRestConfigHash, configHash)]],
                     obj_ControlledBy = False,
                     obj_JobFailed = False,
                     obj_JobCompleted = False\<rparr>))"

definition createBackupJob ::
  "env \<Rightarrow> string option \<Rightarrow> string \<Rightarrow> string \<Rightarrow> string \<Rightarrow> selector \<Rightarrow> container
     \<Rightarrow> Object option \<Rightarrow> rstate \<Rightarrow> error option outcome \<times> rstate" where
  "createBackupJob env serviceAccount configHash replicaCreateRepoName configName selector
       containerName job s =
    (case backupJobIntent env (cluster s) configHash configName job of
       Panic \<Rightarrow> (Panic, s)
     | Return backupJob \<Rightarrow>
        (case serviceAccount of
           None \<Rightarrow> (Panic, s)
         | Some serviceAccountName \<Rightarrow>
            (case generateBackupJobSpecIntent env (cluster s) selector containerName
                    replicaCreateRepoName serviceAccountName configName (obj_Labels backupJob) of
               Inl err \<Rightarrow> (Return (Some err), s)
             | Inr spec \<Rightarrow>
                (case SetControllerReference env backupJob of
                   Some err \<Rightarrow> (Return (Some err), s)
                 | None \<Rightarrow>
                    (let owned = backupJob\<lparr>obj_ControlledBy := True\<rparr> in
                     (Return (apply_Job env (log s) owned spec),
                      record_action (ApplyJob owned spec) s))))))"

definition replicaCreateBackup_body ::
  "env \<Rightarrow> Object list \<Rightarrow> string option \<Rightarrow> string \<Rightarrow> string \<Rightarrow> nat option \<Rightarrow> rstate
     \<Rightarrow> error option outcome \<times> rstate" where
  "replicaCreateBackup_body env replicaCreateBackupJobs serviceAccount configHash
       replicaCreateRepoName replicaCreateRepoStatus s =
    (case replicaCreateRepoStatus of
       None \<Rightarrow> (Return None, s)
     | Some i \<Rightarrow>
        if \<not> ClusterBootstrapped env then (Return None, s)
        else if ReplicaCreateBackupComplete (status_Repos (cluster s) ! i) then (Return None, s)
        else
          (let replicaReady = replicaRepoReady (status_Conditions (cluster s)) in
           case getPGBackRestExecSelector env (cluster s) of
             Inl err \<Rightarrow> (Return (Some err), s)
           | Inr (selector, containerName) \<Rightarrow>
              (let s1 = record_action (ListPods selector) s in
               case Client_List_Pods env (log s) selector of
                 Inl err \<Rightarrow> (Return (Some err), s1)
               | Inr pods \<Rightarrow>
                  if length pods \<noteq> 1
                  then (Return (Some (Error (''invalid number of Pods found when attempting '' @
                          ''to create replica create backup''))), s1)
                  else
                    (let primaryInstance = getLabel (pod_Labels (hd pods)) LabelInstance;
                         configName = (if DedicatedRepoHostEnabled env then CMRepoKey env
                                       else primaryInstance @ ''.conf'');
                         dedicatedReady = dedicatedRepoReady (status_Conditions (cluster s))
                     in case (case replicaCreateBackupJobs of
                                [] \<Rightarrow> (None, s1)
                              | job # _ \<Rightarrow>
                                  reconcileExistingJob env configHash replicaCreateRepoName
                                    configName dedicatedReady replicaReady i job s1) of
                          (Some r, s2) \<Rightarrow> (Return r, s2)
                        | (None, s2) \<Rightarrow>
                            if \<not> dedicatedReady \<or> \<not> replicaReady
                            then (Return None, s2)
                            else createBackupJob env serviceAccount configHash
                                   replicaCreateRepoName configName selector containerName
                                   (case replicaCreateBackupJobs of [] \<Rightarrow> None
                                    | job # _ \<Rightarrow> Some job) s2))))"

definition reconcileReplicaCreateBackup ::
  "env \<Rightarrow> Object list \<Rightarrow> string option \<Rightarrow> string \<Rightarrow> string \<Rightarrow> rstate
     \<Rightarrow> error option outcome \<times> rstate" where
  "reconcileReplicaCreateBackup env replicaCreateBackupJobs serviceAccount configHash
       replicaCreateRepoName s =
    (let replicaCreateRepoStatus =
           repoStatusIndex replicaCreateRepoName (status_Repos (cluster s))
     in case replicaCreateBackup_body env replicaCreateBackupJobs serviceAccount configHash
               replicaCreateRepoName replicaCreateRepoStatus s of
          (result, s') \<Rightarrow> (result, setReplicaCreate replicaCreateRepoStatus s'))"

section \<open>The ownership sweep: cleanupRepoResources and getPGBackRestResources\<close>

definition full :: string where "full = ''full''"
definition differential :: string where "differential = ''diff''"
definition incremental :: string where "incremental = ''incr''"

definition backupScheduleFound :: "PGBackRestRepo \<Rightarrow> string \<Rightarrow> bool" where
  "backupScheduleFound repo backupType =
    (case repo_BackupSchedules repo of
       Some schedules \<Rightarrow>
         if backupType = full then Full schedules \<noteq> None
         else if backupType = differential then Differential schedules \<noteq> None
         else if backupType = incremental then Incremental schedules \<noteq> None
         else False
     | None \<Rightarrow> False)"

text \<open>
  The \<^verbatim>\<open>switch\<close> of \<^verbatim>\<open>cleanupRepoResources\<close> for one owned resource: the copies of the
  resource that it appends to \<^verbatim>\<open>ownedNoDelete\<close>. The flag \<^verbatim>\<open>delete\<close> is cleared exactly
  when something is appended, so the resource is deleted when this list is empty. The
  loop over the repositories of the specification for a volume, and the one for a backup
  job, has no \<^verbatim>\<open>break\<close>: it appends once for every repository that matches.
\<close>

definition ownedNoDelete :: "env \<Rightarrow> PostgresCluster \<Rightarrow> Object \<Rightarrow> Object list" where
  "ownedNoDelete env postgresCluster owned =
    (let ls = obj_Labels owned;
         repos = spec_Repos postgresCluster
     in if hasLabel ls LabelPGBackRestConfig then [owned]
        else if hasLabel ls LabelPGBackRestDedicated
        then (if DedicatedRepoHostEnabled env then [owned] else [])
        else if hasLabel ls LabelPGBackRestRepoHost
        then (if RepoHostEnabled env then [owned] else [])
        else if hasLabel ls LabelPGBackRestRepoVolume
        then map (\<lambda>repo. owned)
               (filter (\<lambda>repo. repo_Volume repo \<and>
                                repo_Name repo = getLabel ls LabelPGBackRestRepo) repos)
        else if hasLabel ls LabelPGBackRestBackup
        then map (\<lambda>repo. owned)
               (filter (\<lambda>repo. repo_Name repo = getLabel ls LabelPGBackRestRepo) repos)
        else if hasLabel ls LabelPGBackRestCronJob
        then (case find (\<lambda>repo. repo_Name repo = getLabel ls LabelPGBackRestRepo) repos of
                Some repo \<Rightarrow>
                  if backupScheduleFound repo (getLabel ls LabelPGBackRestCronJob)
                  then [owned] else []
              | None \<Rightarrow> [])
        else [])"

text \<open>
  \<^verbatim>\<open>cleanupRepoResources\<close>: the loop over the owned resources, with the resources kept so
  far. A delete that fails ends the function with the error.
\<close>

fun cleanupLoop ::
  "env \<Rightarrow> PostgresCluster \<Rightarrow> Object list \<Rightarrow> Object list \<Rightarrow> rstate
     \<Rightarrow> (error + Object list) \<times> rstate" where
  "cleanupLoop env postgresCluster [] kept s = (Inr kept, s)"
| "cleanupLoop env postgresCluster (owned # ownedResources) kept s =
    (case ownedNoDelete env postgresCluster owned of
       [] \<Rightarrow>
         (case Client_Delete env (log s) owned of
            Some err \<Rightarrow> (Inl err, record_action (Delete owned) s)
          | None \<Rightarrow>
              cleanupLoop env postgresCluster ownedResources kept
                (record_action (Delete owned) s))
     | keep \<Rightarrow> cleanupLoop env postgresCluster ownedResources (kept @ keep) s)"

definition cleanupRepoResources ::
  "env \<Rightarrow> PostgresCluster \<Rightarrow> Object list \<Rightarrow> rstate \<Rightarrow> (error + Object list) \<times> rstate" where
  "cleanupRepoResources env postgresCluster ownedResources s =
     cleanupLoop env postgresCluster ownedResources [] s"

record RepoResources =
  cronjobs :: "Object list"
  replicaCreateBackupJobs :: "Object list"
  hosts :: "Object list"
  pvcs :: "Object list"
  sshConfig :: "Object option"
  sshSecret :: "Object option"

text \<open>
  What the controller needs from outside for a whole cycle: the listing of a kind, the
  conversion of unstructured items, the names of the SSH objects, the label value of a
  replica-create job, the hashes of the external configurations, the volume intent, the
  merge of two reconcile results, \<^verbatim>\<open>utilerrors.NewAggregate\<close>, and the quoted form that the
  verb \<^verbatim>\<open>%q\<close> of \<^verbatim>\<open>fmt.Errorf\<close> gives a string. The four sub-steps whose bodies no
  property below depends on (\<^verbatim>\<open>reconcileDedicatedRepoHost\<close>, \<^verbatim>\<open>reconcilePGBackRestConfig\<close>,
  \<^verbatim>\<open>reconcilePGBackRestRBAC\<close>, \<^verbatim>\<open>reconcilePGBackRestCronJob\<close>) are arbitrary transitions of
  the state, so that what is proved of \<^verbatim>\<open>reconcilePGBackRest\<close> holds whatever they do.
\<close>

record Result =
  Requeue :: bool
  RequeueAfter :: nat

record cycle_env = env +
  Client_List :: "action list \<Rightarrow> string \<Rightarrow> error + Object list"
  FromUnstructured :: "string \<Rightarrow> Object list \<Rightarrow> error option"
  PGBackRestSSHConfig_Name :: string
  PGBackRestSSHSecret_Name :: string
  BackupReplicaCreate :: string
  CalculateConfigHashes :: "PostgresCluster \<Rightarrow> (string \<times> string) list \<times> string \<times> error option"
  applyRepoVolumeIntent :: "action list \<Rightarrow> PGBackRestRepo \<Rightarrow> error + PersistentVolumeClaim"
  updateReconcileResult :: "Result \<Rightarrow> Result \<Rightarrow> Result"
  NewAggregate :: "error list \<Rightarrow> error"
  Quote :: "string \<Rightarrow> string"
  reconcileDedicatedRepoHost ::
    "RepoResources \<Rightarrow> rstate \<Rightarrow> (Object option \<times> error option) \<times> rstate"
  reconcilePGBackRestConfig ::
    "string \<Rightarrow> string \<Rightarrow> string list \<Rightarrow> Object option \<Rightarrow> rstate \<Rightarrow> error option \<times> rstate"
  reconcilePGBackRestRBAC :: "rstate \<Rightarrow> (string option \<times> error option) \<times> rstate"
  reconcilePGBackRestCronJob :: "rstate \<Rightarrow> bool \<times> rstate"

definition unstructuredToRepoResources ::
  "cycle_env \<Rightarrow> string \<Rightarrow> RepoResources \<Rightarrow> Object list \<Rightarrow> error + RepoResources" where
  "unstructuredToRepoResources env kind repoResources items =
    (if kind \<notin> {''ConfigMapList'', ''JobList'', ''PersistentVolumeClaimList'', ''SecretList'',
                 ''StatefulSetList'', ''CronJob''}
     then Inl (Error (''unexpected kind '' @ Quote env kind))
     else case FromUnstructured env kind items of
       Some err \<Rightarrow> Inl err
     | None \<Rightarrow>
        if kind = ''ConfigMapList''
        then Inr (case find (\<lambda>cm. obj_Name cm = PGBackRestSSHConfig_Name env) items of
                    Some cm \<Rightarrow> repoResources\<lparr>sshConfig := Some cm\<rparr>
                  | None \<Rightarrow> repoResources)
        else if kind = ''JobList''
        then Inr (repoResources\<lparr>replicaCreateBackupJobs :=
                    replicaCreateBackupJobs repoResources @
                    filter (\<lambda>job. getLabel (obj_Labels job) LabelPGBackRestBackup =
                                     BackupReplicaCreate env) items\<rparr>)
        else if kind = ''PersistentVolumeClaimList''
        then Inr (repoResources\<lparr>pvcs := pvcs repoResources @ items\<rparr>)
        else if kind = ''SecretList''
        then Inr (case find (\<lambda>secret. obj_Name secret = PGBackRestSSHSecret_Name env) items of
                    Some secret \<Rightarrow> repoResources\<lparr>sshSecret := Some secret\<rparr>
                  | None \<Rightarrow> repoResources)
        else if kind = ''StatefulSetList''
        then Inr (repoResources\<lparr>hosts := hosts repoResources @ items\<rparr>)
        else Inr (repoResources\<lparr>cronjobs := cronjobs repoResources @ items\<rparr>))"

definition gvks :: "string list" where
  "gvks = [''ConfigMapList'', ''JobList'', ''PersistentVolumeClaimList'', ''SecretList'',
           ''StatefulSetList'', ''CronJob'']"

fun resourcesLoop ::
  "cycle_env \<Rightarrow> PostgresCluster \<Rightarrow> string list \<Rightarrow> RepoResources \<Rightarrow> rstate
     \<Rightarrow> (error + RepoResources) \<times> rstate" where
  "resourcesLoop env postgresCluster [] repoResources s = (Inr repoResources, s)"
| "resourcesLoop env postgresCluster (kind # kinds) repoResources s =
    (let s1 = record_action (ListObjects kind) s in
     case Client_List env (log s) kind of
       Inl err \<Rightarrow> (Inl err, s1)
     | Inr items \<Rightarrow>
        if items = [] then resourcesLoop env postgresCluster kinds repoResources s1
        else
          (case cleanupRepoResources (env.truncate env) postgresCluster
                  (filter obj_ControlledBy items) s1 of
             (Inl err, s2) \<Rightarrow> (Inl err, s2)
           | (Inr owned, s2) \<Rightarrow>
              (case unstructuredToRepoResources env kind repoResources owned of
                 Inl err \<Rightarrow> (Inl err, s2)
               | Inr repoResources' \<Rightarrow>
                   resourcesLoop env postgresCluster kinds repoResources' s2)))"

definition getPGBackRestResources ::
  "cycle_env \<Rightarrow> rstate \<Rightarrow> (error + RepoResources) \<times> rstate" where
  "getPGBackRestResources env s =
     resourcesLoop env (cluster s) gvks
       \<lparr>cronjobs = [], replicaCreateBackupJobs = [], hosts = [], pvcs = [],
        sshConfig = None, sshSecret = None\<rparr> s"

text \<open>The actions of the ownership sweep: listing a kind and deleting an object.\<close>

fun sweepAction :: "action \<Rightarrow> bool" where
  "sweepAction (ListObjects kind) = True"
| "sweepAction (Delete obj) = True"
| "sweepAction a = False"

section \<open>reconcileRepos\<close>

text \<open>
  The loop of \<^verbatim>\<open>reconcileRepos\<close> over the repositories of the specification: the volumes
  applied and the errors met, in order.
\<close>

fun applyRepoVolumes ::
  "cycle_env \<Rightarrow> PGBackRestRepo list \<Rightarrow> PersistentVolumeClaim list \<Rightarrow> error list \<Rightarrow> rstate
     \<Rightarrow> (PersistentVolumeClaim list \<times> error list) \<times> rstate" where
  "applyRepoVolumes env [] repoVols errors s = ((repoVols, errors), s)"
| "applyRepoVolumes env (repo # repos) repoVols errors s =
    (if \<not> repo_Volume repo then applyRepoVolumes env repos repoVols errors s
     else case applyRepoVolumeIntent env (log s) repo of
            Inl err \<Rightarrow>
              applyRepoVolumes env repos repoVols (errors @ [err])
                (record_action (SubStep (''applyRepoVolumeIntent '' @ repo_Name repo)) s)
          | Inr vol \<Rightarrow>
              applyRepoVolumes env repos (repoVols @ [vol]) errors
                (record_action (SubStep (''applyRepoVolumeIntent '' @ repo_Name repo)) s))"

definition reconcileRepos ::
  "cycle_env \<Rightarrow> (string \<times> string) list \<Rightarrow> rstate \<Rightarrow> (string \<times> error option) \<times> rstate" where
  "reconcileRepos env extConfigHashes s =
    (let replicaCreateRepoName =
           (case spec_Repos (cluster s) of [] \<Rightarrow> [] | repo # _ \<Rightarrow> repo_Name repo)
     in case applyRepoVolumes env (spec_Repos (cluster s)) [] [] s of
          ((repoVols, errors), s1) \<Rightarrow>
            (let s2 = s1\<lparr>cluster := (cluster s1)\<lparr>status_Repos :=
                         getRepoVolumeStatus (status_Repos (cluster s1)) repoVols
                           extConfigHashes replicaCreateRepoName\<rparr>\<rparr>
             in if errors \<noteq> [] then (([], Some (NewAggregate env errors)), s2)
                else ((replicaCreateRepoName, None), s2)))"

section \<open>reconcilePGBackRest\<close>

text \<open>
  The cycle. It begins with the allocation of the status when that is nil. Each sub-step
  is entered with a \<open>SubStep\<close> mark in the trace. When the
  dedicated host is enabled and its reconciliation fails, \<^verbatim>\<open>repoHost\<close> is nil and
  \<^verbatim>\<open>repoHost.GetName()\<close> panics. A panic of \<^verbatim>\<open>reconcileReplicaCreateBackup\<close> is a panic of
  the cycle.
\<close>

definition requeueNow :: Result where
  "requeueNow = \<lparr>Requeue = True, RequeueAfter = 0\<rparr>"

definition requeueAfter10s :: Result where
  "requeueAfter10s = \<lparr>Requeue = False, RequeueAfter = 10\<rparr>"

definition emptyResult :: Result where
  "emptyResult = \<lparr>Requeue = False, RequeueAfter = 0\<rparr>"

definition reconcileHostStep ::
  "cycle_env \<Rightarrow> RepoResources \<Rightarrow> Result \<Rightarrow> rstate \<Rightarrow> (Result \<times> string) outcome \<times> rstate" where
  "reconcileHostStep env repoResources result s =
    (let dedicatedEnabled =
           (case spec_RepoHost (cluster s) of None \<Rightarrow> False | Some h \<Rightarrow> rh_Dedicated h)
     in if dedicatedEnabled
        then (case reconcileDedicatedRepoHost env repoResources
                     (record_action (SubStep ''reconcileDedicatedRepoHost'') s) of
                ((repoHost, err), s1) \<Rightarrow>
                  (let result1 = (if err \<noteq> None then updateReconcileResult env result requeueNow
                                  else result)
                   in case repoHost of
                        None \<Rightarrow> (Panic, s1)
                      | Some host \<Rightarrow> (Return (result1, obj_Name host), s1)))
        else if status_Conditions (cluster s) \<noteq> []
        then (Return (result, []),
              s\<lparr>cluster := (cluster s)\<lparr>status_Conditions :=
                   RemoveStatusCondition (status_Conditions (cluster s))
                     ConditionRepoHostReady\<rparr>\<rparr>)
        else (Return (result, []), s))"

definition reconcileSteps ::
  "cycle_env \<Rightarrow> string list \<Rightarrow> RepoResources \<Rightarrow> Result \<Rightarrow> string \<Rightarrow> rstate
     \<Rightarrow> (Result \<times> error option) outcome \<times> rstate" where
  "reconcileSteps env instanceNames repoResources result0 repoHostName s0 =
    (case CalculateConfigHashes env (cluster s0) of
       (configHashes, configHash, err) \<Rightarrow>
    (let result1 = (if err \<noteq> None then updateReconcileResult env result0 requeueNow
                    else result0)
     in case reconcileRepos env configHashes (record_action (SubStep ''reconcileRepos'') s0) of
       ((replicaCreateRepo, err), s1) \<Rightarrow>
    (let result2 = (if err \<noteq> None then updateReconcileResult env result1 requeueNow
                    else result1)
     in case reconcilePGBackRestConfig env repoHostName configHash instanceNames
               (sshSecret repoResources)
               (record_action (SubStep ''reconcilePGBackRestConfig'') s1) of
       (err, s2) \<Rightarrow>
    (let result3 = (if err \<noteq> None then updateReconcileResult env result2 requeueNow
                    else result2)
     in case reconcilePGBackRestRBAC env
               (record_action (SubStep ''reconcilePGBackRestRBAC'') s2) of
       ((sa, err), s3) \<Rightarrow>
    (let result4 = (if err \<noteq> None then updateReconcileResult env result3 requeueNow
                    else result3)
     in case reconcileStanzaCreate (env.truncate env) configHash
               (record_action (SubStep ''reconcileStanzaCreate'') s3) of
       ((configHashMismatch, err), s4) \<Rightarrow>
    (let result5 = (if err \<noteq> None then updateReconcileResult env result4 requeueAfter10s
                    else result4);
         result6 = (if configHashMismatch
                    then updateReconcileResult env result5 requeueAfter10s else result5)
     in case reconcilePGBackRestCronJob env
               (record_action (SubStep ''reconcilePGBackRestCronJob'') s4) of
       (requeue, s5) \<Rightarrow>
    (let result7 = (if requeue then updateReconcileResult env result6 requeueAfter10s
                    else result6)
     in case reconcileReplicaCreateBackup (env.truncate env)
               (replicaCreateBackupJobs repoResources) sa configHash replicaCreateRepo
               (record_action (SubStep ''reconcileReplicaCreateBackup'') s5) of
       (Panic, s6) \<Rightarrow> (Panic, s6)
     | (Return err, s6) \<Rightarrow>
         (Return ((if err \<noteq> None then updateReconcileResult env result7 requeueNow
                   else result7), None), s6))))))))"

definition allocatePGBackRestStatus :: "rstate \<Rightarrow> rstate" where
  "allocatePGBackRestStatus s =
    (if status_PGBackRest_nil (cluster s)
     then s\<lparr>cluster := (cluster s)\<lparr>status_Repos := [], status_RepoHost := None,
                                    status_PGBackRest_nil := False\<rparr>\<rparr>
     else s)"

definition reconcilePGBackRest ::
  "cycle_env \<Rightarrow> string list \<Rightarrow> rstate \<Rightarrow> (Result \<times> error option) outcome \<times> rstate" where
  "reconcilePGBackRest env instanceNames s =
    (let s0 = allocatePGBackRestStatus s;
         result = emptyResult in
     case getPGBackRestResources env (record_action (SubStep ''getPGBackRestResources'') s0) of
       (Inl err, s1) \<Rightarrow> (Return (emptyResult, Some err), s1)
     | (Inr repoResources, s1) \<Rightarrow>
        (case reconcileHostStep env repoResources result s1 of
           (Panic, s2) \<Rightarrow> (Panic, s2)
         | (Return (result1, repoHostName), s2) \<Rightarrow>
             reconcileSteps env instanceNames repoResources result1 repoHostName s2))"

section \<open>Reading the trace\<close>

text \<open>
  The conditions written to the ledger, in order, among the actions of a trace; and the
  actions that a call added to the trace it was given.
\<close>

fun ledgerUpserts :: "action list \<Rightarrow> Condition list" where
  "ledgerUpserts [] = []"
| "ledgerUpserts (LedgerUpsert c # as) = c # ledgerUpserts as"
| "ledgerUpserts (a # as) = ledgerUpserts as"

definition added :: "rstate \<Rightarrow> rstate \<Rightarrow> action list" where
  "added s s' = drop (length (log s)) (log s')"

text \<open>The same state with one more condition, put in front of the ledger.\<close>

definition withCondition :: "Condition \<Rightarrow> rstate \<Rightarrow> rstate" where
  "withCondition c s =
     s\<lparr>cluster := (cluster s)\<lparr>status_Conditions := c # status_Conditions (cluster s)\<rparr>\<rparr>"

section \<open>Concrete inputs\<close>

text \<open>
  A cluster \<^verbatim>\<open>hippo\<close> with one volume-backed repository \<^verbatim>\<open>repo1\<close>, no repository host,
  one primary pod, and an API server that accepts every call.
\<close>

definition example_pod :: Pod where
  "example_pod = \<lparr>pod_Name = ''hippo-instance1-abcd-0'',
                   pod_Labels = [(LabelInstance, ''hippo-instance1-abcd'')]\<rparr>"

definition example_env :: env where
  "example_env =
     \<lparr>ClusterBootstrapped = True,
      DedicatedRepoHostEnabled = False,
      RepoHostEnabled = False,
      CMRepoKey = ''pgbackrest_repo.conf'',
      DefaultStanzaName = ''db'',
      LabelSelectorAsSelector = (\<lambda>_. None),
      Client_List_Pods = (\<lambda>_ _. Inr [example_pod]),
      StanzaCreate = (\<lambda>_ _ _ _. (False, None)),
      Client_Delete = (\<lambda>_ _. None),
      PGBackRestBackupJob = (''hippo-backup-abcd'', ''ns''),
      PGBackRestBackupJobLabels =
        (\<lambda>_ repoName. [(LabelPGBackRestRepo, repoName),
                        (LabelPGBackRestBackup, ''replica-create'')]),
      AddConfigsToPod = (\<lambda>_. None),
      SetControllerReference = (\<lambda>_. None),
      apply_Job = (\<lambda>_ _ _. None)\<rparr>"

definition example_repo_status :: RepoStatus where
  "example_repo_status =
     \<lparr>Bound = True, Name = ''repo1'', VolumeName = ''vol'', RepoOptionsHash = [],
      StanzaCreated = False, ReplicaCreateBackupComplete = False\<rparr>"

definition example_cluster :: PostgresCluster where
  "example_cluster =
     \<lparr>pc_Name = ''hippo'',
      pc_Namespace = ''ns'',
      pc_Generation = 1,
      spec_Metadata_Labels = [],
      spec_Metadata_Annotations = [],
      spec_PGBackRest_Metadata_Labels = [],
      spec_PGBackRest_Metadata_Annotations = [],
      spec_Repos = [\<lparr>repo_Name = ''repo1'', repo_Volume = True,
                     repo_BackupSchedules = None\<rparr>],
      spec_RepoHost = None,
      status_Conditions = [],
      status_Repos = [example_repo_status],
      status_RepoHost = None,
      status_PGBackRest_nil = False\<rparr>"

definition example_state :: rstate where
  "example_state = \<lparr>cluster = example_cluster, log = []\<rparr>"

definition example_job :: Object where
  "example_job =
     \<lparr>obj_Name = ''hippo-backup-wxyz'',
      obj_Namespace = ''ns'',
      obj_Labels = [(LabelPGBackRestRepo, ''repo1''),
                    (LabelPGBackRestBackup, ''replica-create'')],
      obj_Annotations = [(PGBackRestCurrentConfig, ''hippo-instance1-abcd.conf''),
                         (PGBackRestConfigHash, ''hash1'')],
      obj_ControlledBy = True,
      obj_JobFailed = False,
      obj_JobCompleted = False\<rparr>"

text \<open>
  The same cluster seen by a whole cycle: the sub-steps that are parameters leave the
  state as it is, nothing is listed, and there are no external repositories.
\<close>

definition example_cycle_env :: cycle_env where
  "example_cycle_env =
     env.extend example_env
       (cycle_env.fields
          (\<lambda>_ _. Inr [])
          (\<lambda>_ _. None)
          ''hippo-ssh-config''
          ''hippo-ssh''
          ''replica-create''
          (\<lambda>_. ([], ''hash1'', None))
          (\<lambda>_ repo. Inr \<lparr>pvc_Labels = [(LabelPGBackRestRepo, repo_Name repo)],
                          pvc_VolumeName = ''vol'', pvc_Phase = ClaimBound\<rparr>)
          (\<lambda>cur new. \<lparr>Requeue = Requeue cur \<or> Requeue new,
                        RequeueAfter = max (RequeueAfter cur) (RequeueAfter new)\<rparr>)
          (\<lambda>errors. case errors of [err] \<Rightarrow> err | _ \<Rightarrow> Error ''several errors'')
          (\<lambda>str. CHR 0x22 # str @ [CHR 0x22])
          (\<lambda>_ s. ((None, None), s))
          (\<lambda>_ _ _ _ s. (None, s))
          (\<lambda>s. ((Some ''hippo-pgbackrest'', None), s))
          (\<lambda>s. (False, s)))"

text \<open>
  A volume of a repository \<^verbatim>\<open>repo2\<close> that the specification no longer declares, owned by
  the cluster.
\<close>

definition example_stale_volume :: Object where
  "example_stale_volume =
     \<lparr>obj_Name = ''hippo-repo2'',
      obj_Namespace = ''ns'',
      obj_Labels = [(LabelPGBackRestRepoVolume, []), (LabelPGBackRestRepo, ''repo2'')],
      obj_Annotations = [],
      obj_ControlledBy = True,
      obj_JobFailed = False,
      obj_JobCompleted = False\<rparr>"

text \<open>The same API server, except that it lists the stale volume and refuses deletes.\<close>

definition example_failing_env :: cycle_env where
  "example_failing_env =
     example_cycle_env
       \<lparr>Client_Delete := (\<lambda>_ _. Some (Error ''forbidden'')),
        Client_List := (\<lambda>_ kind. if kind = ''PersistentVolumeClaimList''
                                  then Inr [example_stale_volume] else Inr [])\<rparr>"

text \<open>
  An API server that lists the stale volume and refuses the first delete of an object
  with a conflict, accepting a later one; and a cluster whose pgBackRest status has not
  been allocated yet.
\<close>

definition example_conflict_env :: cycle_env where
  "example_conflict_env =
     example_failing_env
       \<lparr>Client_Delete := (\<lambda>h obj. if Delete obj \<in> set h then None
                                   else Some (Error ''conflict''))\<rparr>"

definition example_new_state :: rstate where
  "example_new_state =
     \<lparr>cluster = example_cluster\<lparr>status_Repos := [], status_PGBackRest_nil := True\<rparr>,
      log = []\<rparr>"

text \<open>
  An API server that accepts the first delete of an object and answers a second one with
  an error, the object being gone.
\<close>

definition example_gone_env :: env where
  "example_gone_env =
     example_env
       \<lparr>Client_Delete := (\<lambda>h obj. if Delete obj \<in> set h then Some (Error ''not found'')
                                   else None)\<rparr>"

text \<open>A \<^verbatim>\<open>RepoHostReady\<close> condition that reports the host ready.\<close>

definition example_host_ready :: Condition where
  "example_host_ready =
     \<lparr>cond_Type = ConditionRepoHostReady, cond_Status = ConditionTrue,
      cond_ObservedGeneration = 1, cond_Reason = ''RepoHostReady'',
      cond_Message = ''pgBackRest dedicated repository host is ready''\<rparr>"

section \<open>Properties of getRepoVolumeStatus\<close>

lemma carryExt_find:
  "carryExtRepoStatus n h rc repoStatus =
     map_option (\<lambda>rs. let rs1 = (if ReplicaCreateBackupComplete rs \<and> Name rs \<noteq> rc
                   then rs\<lparr>ReplicaCreateBackupComplete := False\<rparr> else rs) in
                  (if RepoOptionsHash rs1 \<noteq> h
                   then rs1\<lparr>RepoOptionsHash := h, StanzaCreated := False,
                            ReplicaCreateBackupComplete := False\<rparr>
                   else rs1)) (carriedOver repoStatus n)"
  by (induction repoStatus) (simp_all add: carriedOver_def Let_def)

lemma carryVol_find:
  "carryRepoVolStatus rv rc repoStatus =
     map_option (\<lambda>rs. let rs1 = (if ReplicaCreateBackupComplete rs \<and> Name rs \<noteq> rc
                   then rs\<lparr>ReplicaCreateBackupComplete := False\<rparr> else rs) in
                  (if Bound rs1 \<noteq> (pvc_Phase rv = ClaimBound)
                   then rs1\<lparr>Bound := (pvc_Phase rv = ClaimBound)\<rparr> else rs1))
        (carriedOver repoStatus (getLabel (pvc_Labels rv) LabelPGBackRestRepo))"
  by (induction repoStatus) (simp_all add: carriedOver_def Let_def)

lemma carriedOver_Name: "carriedOver repoStatus n = Some rs \<Longrightarrow> Name rs = n"
  by (auto simp: carriedOver_def find_Some_iff)

lemma extRepoStatus_Name [simp]: "Name (extRepoStatus repoStatus rc kv) = fst kv"
  by (auto simp: extRepoStatus_def carryExt_find Let_def dest: carriedOver_Name
           split: option.splits)

lemma repoVolStatus_Name [simp]:
  "Name (repoVolStatus repoStatus rc rv) = getLabel (pvc_Labels rv) LabelPGBackRestRepo"
  by (auto simp: repoVolStatus_def carryVol_find Let_def dest: carriedOver_Name
           split: option.splits)

lemma extRepoStatus_complete:
  "ReplicaCreateBackupComplete (extRepoStatus repoStatus rc kv) \<Longrightarrow> fst kv = rc"
  by (auto simp: extRepoStatus_def carryExt_find Let_def dest: carriedOver_Name
           split: option.splits if_splits)

lemma repoVolStatus_complete:
  "ReplicaCreateBackupComplete (repoVolStatus repoStatus rc rv) \<Longrightarrow>
     getLabel (pvc_Labels rv) LabelPGBackRestRepo = rc"
  by (auto simp: repoVolStatus_def carryVol_find Let_def dest: carriedOver_Name
           split: option.splits if_splits)


lemma set_getRepoVolumeStatus:
  "set (getRepoVolumeStatus repoStatus repoVolumes configHashes rc) =
     repoVolStatus repoStatus rc ` set repoVolumes \<union>
     extRepoStatus repoStatus rc ` set configHashes"
  by (simp add: getRepoVolumeStatus_def)







text \<open>
  Claim C2, as stated, asks that for every input at most one returned entry has
  \<open>ReplicaCreateBackupComplete\<close> set. A volume and an external configuration of the same
  name each carry the prior entry over, so the completed replica-create repository is
  returned twice.
\<close>

theorem getRepoVolumeStatus_two_complete_entries:
  "length (filter ReplicaCreateBackupComplete
     (getRepoVolumeStatus
        [\<lparr>Bound = True, Name = ''repo1'', VolumeName = ''vol'', RepoOptionsHash = ''aaa'',
          StanzaCreated = True, ReplicaCreateBackupComplete = True\<rparr>]
        [\<lparr>pvc_Labels = [(LabelPGBackRestRepo, ''repo1'')], pvc_VolumeName = ''vol'',
          pvc_Phase = ClaimBound\<rparr>]
        [(''repo1'', ''aaa'')]
        ''repo1'')) = 2"
  by (simp add: getRepoVolumeStatus_def repoVolStatus_def extRepoStatus_def getLabel_def)

text \<open>
  Claim C2, amended. For every input, a returned entry with
  \<open>ReplicaCreateBackupComplete\<close> set is named like the replica-create repository (so an
  entry carried over under another name has the flag cleared); and when the reconciled
  volumes and the keys of the hash map name pairwise different repositories, at most one
  returned entry has the flag set.
\<close>

theorem getRepoVolumeStatus_complete_only_replica_create_repo:
  "(\<forall>e \<in> set (getRepoVolumeStatus repoStatus repoVolumes configHashes replicaCreateRepoName).
       ReplicaCreateBackupComplete e \<longrightarrow> Name e = replicaCreateRepoName)
   \<and> (distinct (map pvcRepoName repoVolumes @ map fst configHashes) \<longrightarrow>
       length (filter ReplicaCreateBackupComplete
         (getRepoVolumeStatus repoStatus repoVolumes configHashes replicaCreateRepoName)) \<le> 1)"
proof (intro conjI impI ballI)
  let ?r = "getRepoVolumeStatus repoStatus repoVolumes configHashes replicaCreateRepoName"
  let ?u = "map (repoVolStatus repoStatus replicaCreateRepoName) repoVolumes @
        map (extRepoStatus repoStatus replicaCreateRepoName) configHashes"
  have only: "Name e = replicaCreateRepoName"
    if "e \<in> set ?u" "ReplicaCreateBackupComplete e" for e
    using that by (auto dest: extRepoStatus_complete repoVolStatus_complete)
  { fix e assume "e \<in> set ?r" "ReplicaCreateBackupComplete e"
    then show "Name e = replicaCreateRepoName"
      using only by (simp add: getRepoVolumeStatus_def) }
  assume d: "distinct (map pvcRepoName repoVolumes @ map fst configHashes)"
  have "map Name (map (repoVolStatus repoStatus replicaCreateRepoName) repoVolumes) =
          map pvcRepoName repoVolumes"
    by (induction repoVolumes) (simp_all add: pvcRepoName_def)
  moreover have "map Name (map (extRepoStatus repoStatus replicaCreateRepoName) configHashes) =
          map fst configHashes"
    by (induction configHashes) simp_all
  ultimately have names: "map Name ?u = map pvcRepoName repoVolumes @ map fst configHashes"
    by (simp only: map_append)
  have "distinct (map Name ?u)" unfolding names by (rule d)
  then have du: "distinct (map Name (filter ReplicaCreateBackupComplete ?u))"
    by (rule distinct_map_filter)
  have "set (map Name (filter ReplicaCreateBackupComplete ?u)) \<subseteq> {replicaCreateRepoName}"
    using only by auto
  then have "card (set (map Name (filter ReplicaCreateBackupComplete ?u))) \<le> 1"
    by (metis card_mono finite.emptyI finite.insertI card.empty card_insert_disjoint
        empty_iff One_nat_def)
  then have "length (filter ReplicaCreateBackupComplete ?u) \<le> 1"
    using distinct_card[OF du] by simp
  moreover have "length (filter ReplicaCreateBackupComplete ?r) =
      length (filter ReplicaCreateBackupComplete ?u)"
    unfolding getRepoVolumeStatus_def by (simp only: filter_sort length_sort)
  ultimately show "length (filter ReplicaCreateBackupComplete ?r) \<le> 1" by simp
qed

theorem getRepoVolumeStatus_complete_only_replica_create_repo_witness:
  "distinct (map pvcRepoName
       [\<lparr>pvc_Labels = [(LabelPGBackRestRepo, ''repo1'')], pvc_VolumeName = ''vol'',
         pvc_Phase = ClaimBound\<rparr>] @ map fst [(''repo2'', ''bbb'')])
   \<and> \<lparr>Bound = True, Name = ''repo1'', VolumeName = ''vol'', RepoOptionsHash = [],
          StanzaCreated = True, ReplicaCreateBackupComplete = True\<rparr>
       \<in> set (getRepoVolumeStatus
        [\<lparr>Bound = True, Name = ''repo1'', VolumeName = ''vol'', RepoOptionsHash = [],
          StanzaCreated = True, ReplicaCreateBackupComplete = True\<rparr>,
         \<lparr>Bound = False, Name = ''repo2'', VolumeName = [], RepoOptionsHash = ''bbb'',
          StanzaCreated = True, ReplicaCreateBackupComplete = True\<rparr>]
        [\<lparr>pvc_Labels = [(LabelPGBackRestRepo, ''repo1'')], pvc_VolumeName = ''vol'',
          pvc_Phase = ClaimBound\<rparr>]
        [(''repo2'', ''bbb'')] ''repo1'')
   \<and> Name \<lparr>Bound = True, Name = ''repo1'', VolumeName = ''vol'', RepoOptionsHash = [],
          StanzaCreated = True, ReplicaCreateBackupComplete = True\<rparr> = ''repo1''
   \<and> length (filter ReplicaCreateBackupComplete
       (getRepoVolumeStatus
        [\<lparr>Bound = True, Name = ''repo1'', VolumeName = ''vol'', RepoOptionsHash = [],
          StanzaCreated = True, ReplicaCreateBackupComplete = True\<rparr>,
         \<lparr>Bound = False, Name = ''repo2'', VolumeName = [], RepoOptionsHash = ''bbb'',
          StanzaCreated = True, ReplicaCreateBackupComplete = True\<rparr>]
        [\<lparr>pvc_Labels = [(LabelPGBackRestRepo, ''repo1'')], pvc_VolumeName = ''vol'',
          pvc_Phase = ClaimBound\<rparr>]
        [(''repo2'', ''bbb'')] ''repo1'')) \<le> 1"
proof -
  let ?e = "\<lparr>Bound = True, Name = ''repo1'', VolumeName = ''vol'', RepoOptionsHash = [],
          StanzaCreated = True, ReplicaCreateBackupComplete = True\<rparr>"
  let ?st = "[?e,
         \<lparr>Bound = False, Name = ''repo2'', VolumeName = [], RepoOptionsHash = ''bbb'',
          StanzaCreated = True, ReplicaCreateBackupComplete = True\<rparr>]"
  let ?vols = "[\<lparr>pvc_Labels = [(LabelPGBackRestRepo, ''repo1'')], pvc_VolumeName = ''vol'',
          pvc_Phase = ClaimBound\<rparr>]"
  have d: "distinct (map pvcRepoName ?vols @ map fst [(''repo2'', ''bbb'')])"
    by (simp add: pvcRepoName_def getLabel_def)
  have m: "?e \<in> set (getRepoVolumeStatus ?st ?vols [(''repo2'', ''bbb'')] ''repo1'')"
    by (simp add: set_getRepoVolumeStatus repoVolStatus_def getLabel_def)
  have c: "ReplicaCreateBackupComplete ?e" by simp
  note t = getRepoVolumeStatus_complete_only_replica_create_repo
             [of ?st ?vols "[(''repo2'', ''bbb'')]" "''repo1''"]
  from t m c have a: "Name ?e = ''repo1''"
    by blast
  from t d have b: "length (filter ReplicaCreateBackupComplete
       (getRepoVolumeStatus ?st ?vols [(''repo2'', ''bbb'')] ''repo1'')) \<le> 1"
    by blast
  from d m a b show ?thesis by blast
qed

section \<open>Properties of the condition ledger\<close>

lemmas example_defs =
  example_pod_def example_env_def example_repo_status_def example_cluster_def
  example_state_def

lemmas condition_defs =
  ConditionReplicaRepoReady_def ConditionRepoHostReady_def
  FindStatusCondition_def dedicatedRepoReady_def

lemmas stanza_defs =
  reconcileStanzaCreate_def stanzaCreate_body_def setReplicaRepoReady_def upsertCondition_def
  replicaRepoReadyCondition_def
  record_action_def getPGBackRestExecSelector_def Let_def added_def
  EventStanzasCreated_def EventUnableToCreateStanzas_def

lemmas backup_defs =
  reconcileReplicaCreateBackup_def replicaCreateBackup_body_def reconcileExistingJob_def
  createBackupJob_def backupJobIntent_def generateBackupJobSpecIntent_def jobDrifted_def
  setReplicaCreate_def replicaCreateCondition_def replicaRepoReady_def
  ConditionReplicaCreate_def upsertCondition_def record_action_def
  getPGBackRestExecSelector_def Let_def added_def getLabel_def getAnnotation_def Merge_def

lemmas cycle_defs =
  reconcilePGBackRest_def getPGBackRestResources_def gvks_def cleanupRepoResources_def
  ownedNoDelete_def hasLabel_def getLabel_def unstructuredToRepoResources_def
  example_cycle_env_def example_failing_env_def example_stale_volume_def
  env.defs cycle_env.defs emptyResult_def record_action_def Let_def
  allocatePGBackRestStatus_def

lemma FindStatusCondition_SetStatusCondition:
  "FindStatusCondition (SetStatusCondition conditions c) (cond_Type c) = Some c"
  by (induction conditions) (auto simp: FindStatusCondition_def)

lemma replicaRepoReadyCondition_Type [simp]:
  "cond_Type (replicaRepoReadyCondition c n) = ConditionReplicaRepoReady"
  by (simp add: replicaRepoReadyCondition_def split: option.splits)

lemma replicaRepoReadyCondition_conditions_irrelevant [simp]:
  "replicaRepoReadyCondition (c\<lparr>status_Conditions := cs\<rparr>) n = replicaRepoReadyCondition c n"
  by (simp add: replicaRepoReadyCondition_def split: option.splits)

lemma replicaRepoReadyCondition_Status:
  "cond_Status (replicaRepoReadyCondition c n) =
     (case find (\<lambda>r. Name r = n) (status_Repos c) of
        None \<Rightarrow> ConditionUnknown
      | Some r \<Rightarrow> if StanzaCreated r then ConditionTrue else ConditionFalse)"
  by (simp add: replicaRepoReadyCondition_def split: option.splits)

lemma ledgerUpserts_append [simp]:
  "ledgerUpserts (xs @ ys) = ledgerUpserts xs @ ledgerUpserts ys"
  by (induction xs rule: ledgerUpserts.induct) simp_all

lemma list_all_StanzaCreated_map [simp]:
  "list_all StanzaCreated (map (\<lambda>r. r\<lparr>StanzaCreated := True\<rparr>) xs)"
  by (induction xs) simp_all

lemma find_Name_map_StanzaCreated:
  "find (\<lambda>r. Name r = n) xs = Some e \<Longrightarrow>
     find (\<lambda>r. Name r = n) (map (\<lambda>r. r\<lparr>StanzaCreated := True\<rparr>) xs)
       = Some (e\<lparr>StanzaCreated := True\<rparr>)"
  by (induction xs) (auto split: if_splits)

section \<open>Properties of reconcileStanzaCreate\<close>

text \<open>
  The body of \<^verbatim>\<open>reconcileStanzaCreate\<close> leaves the ledger, the specification and the
  generation alone and only appends to the trace, none of it a write to the ledger.
\<close>

lemma stanzaCreate_body_frame:
  assumes "stanzaCreate_body env configHash s = (result, s1)"
  shows "status_Conditions (cluster s1) = status_Conditions (cluster s)"
    and "spec_Repos (cluster s1) = spec_Repos (cluster s)"
    and "pc_Generation (cluster s1) = pc_Generation (cluster s)"
    and "\<exists>new. log s1 = log s @ new \<and> ledgerUpserts new = []"
  using assms
  by (auto simp: stanzaCreate_body_def Let_def record_action_def
           split: if_splits sum.splits prod.splits option.splits error.splits)

text \<open>
  Claim C4, as stated, has the condition upserted on every call. The deferred function
  returns before it touches the ledger when the specification declares no repository:
  here the stanza is created, the call returns, and no \<^verbatim>\<open>ReplicaRepoReady\<close> condition
  has been written.
\<close>

theorem reconcileStanzaCreate_no_repository_no_upsert:
  "ledgerUpserts (added (example_state\<lparr>cluster := example_cluster\<lparr>spec_Repos := []\<rparr>\<rparr>)
     (snd (reconcileStanzaCreate example_env ''hash1''
             (example_state\<lparr>cluster := example_cluster\<lparr>spec_Repos := []\<rparr>\<rparr>)))) = []
   \<and> FindStatusCondition
        (status_Conditions (cluster (snd (reconcileStanzaCreate example_env ''hash1''
             (example_state\<lparr>cluster := example_cluster\<lparr>spec_Repos := []\<rparr>\<rparr>)))))
        ConditionReplicaRepoReady = None"
  by (simp add: example_defs stanza_defs condition_defs)

text \<open>
  Claim C4, amended. For every call of \<^verbatim>\<open>reconcileStanzaCreate\<close>, whatever the exit path:
  when the specification declares a repository, the \<^verbatim>\<open>ReplicaRepoReady\<close> condition is
  computed from the status list as the call leaves it (true when the entry of the
  repository at index 0 has its stanza, false when it has not, unknown when there is no
  such entry), it is upserted into the ledger exactly once, and that upsert is the last
  thing the call does; when the specification declares no repository, the ledger is not
  written.
\<close>

theorem reconcileStanzaCreate_ledger:
  assumes "reconcileStanzaCreate env configHash s = (result, s')"
  shows "case spec_Repos (cluster s) of
           [] \<Rightarrow> status_Conditions (cluster s') = status_Conditions (cluster s) \<and>
                 take (length (log s)) (log s') = log s \<and>
                 ledgerUpserts (added s s') = []
         | repo # _ \<Rightarrow>
            (let c = replicaRepoReadyCondition (cluster s') (repo_Name repo) in
               status_Conditions (cluster s') =
                 SetStatusCondition (status_Conditions (cluster s)) c \<and>
               take (length (log s)) (log s') = log s \<and>
               ledgerUpserts (added s s') = [c] \<and>
               last (log s') = LedgerUpsert c \<and>
               cond_Type c = ConditionReplicaRepoReady \<and>
               cond_Status c =
                 (case find (\<lambda>r. Name r = repo_Name repo) (status_Repos (cluster s')) of
                    None \<Rightarrow> ConditionUnknown
                  | Some r \<Rightarrow> if StanzaCreated r then ConditionTrue else ConditionFalse))"
proof -
  obtain r1 s1 where body: "stanzaCreate_body env configHash s = (r1, s1)"
    by (cases "stanzaCreate_body env configHash s")
  with assms have s': "s' = setReplicaRepoReady s1"
    by (simp add: reconcileStanzaCreate_def)
  from stanzaCreate_body_frame[OF body] obtain new where
    conds: "status_Conditions (cluster s1) = status_Conditions (cluster s)" and
    spec: "spec_Repos (cluster s1) = spec_Repos (cluster s)" and
    lg: "log s1 = log s @ new" and nu: "ledgerUpserts new = []"
    by blast
  show ?thesis
  proof (cases "spec_Repos (cluster s)")
    case Nil
    with s' spec conds lg nu show ?thesis
      by (simp add: setReplicaRepoReady_def added_def)
  next
    case (Cons repo repos)
    with s' spec conds lg nu show ?thesis
      by (simp add: setReplicaRepoReady_def added_def upsertCondition_def Let_def
                    replicaRepoReadyCondition_Status)
  qed
qed

theorem reconcileStanzaCreate_ledger_witness:
  "ledgerUpserts (added example_state
       (snd (reconcileStanzaCreate example_env ''hash1'' example_state)))
     = [replicaRepoReadyCondition
          (cluster (snd (reconcileStanzaCreate example_env ''hash1'' example_state))) ''repo1'']
   \<and> cond_Status (replicaRepoReadyCondition
          (cluster (snd (reconcileStanzaCreate example_env ''hash1'' example_state))) ''repo1'')
     = ConditionTrue"
proof -
  let ?X = "reconcileStanzaCreate example_env ''hash1'' example_state"
  have sp: "spec_Repos (cluster example_state) =
              [\<lparr>repo_Name = ''repo1'', repo_Volume = True, repo_BackupSchedules = None\<rparr>]"
    by (simp add: example_defs)
  have x: "?X = (fst ?X, snd ?X)" by simp
  from reconcileStanzaCreate_ledger[OF x] sp
  have a: "ledgerUpserts (added example_state (snd ?X))
             = [replicaRepoReadyCondition (cluster (snd ?X)) ''repo1'']"
    by (simp add: Let_def)
  have b: "cond_Status (replicaRepoReadyCondition (cluster (snd ?X)) ''repo1'') = ConditionTrue"
    by (simp add: example_defs stanza_defs condition_defs)
  from a b show ?thesis by blast
qed

text \<open>
  Claim C5, as stated, has the call change no status field when a precondition fails. The
  deferred function still runs: on a cluster that is not bootstrapped, with \<^verbatim>\<open>repo1\<close>
  declared and an empty ledger, the call returns with \<^verbatim>\<open>Status.Conditions\<close> holding a
  \<^verbatim>\<open>ReplicaRepoReady\<close> condition.
\<close>

theorem reconcileStanzaCreate_noop_writes_condition:
  "\<not> ClusterBootstrapped (example_env\<lparr>ClusterBootstrapped := False\<rparr>)
   \<and> status_Conditions (cluster example_state) = []
   \<and> status_Conditions (cluster (snd (reconcileStanzaCreate
         (example_env\<lparr>ClusterBootstrapped := False\<rparr>) ''hash1'' example_state)))
     = [\<lparr>cond_Type = ''PGBackRestReplicaRepoReady'', cond_Status = ConditionFalse,
         cond_ObservedGeneration = 1, cond_Reason = ''StanzaNotCreated'',
         cond_Message = ''pgBackRest replica create repo is not ready for backups''\<rparr>]"
  by (simp add: example_defs stanza_defs condition_defs)

text \<open>
  Claim C5, amended. When the cluster is not bootstrapped, or the repository host gate
  does not hold, or every status entry has its stanza, \<^verbatim>\<open>reconcileStanzaCreate\<close> returns
  \<^verbatim>\<open>(false, nil)\<close>; it lists no pods, runs no command and records no event; the
  repository status entries are as before; the only thing it does is the upsert of
  \<^verbatim>\<open>ReplicaRepoReady\<close> by the deferred function (none when the specification declares no
  repository), which is the only change to the cluster.
\<close>

theorem reconcileStanzaCreate_noop:
  assumes "\<not> ClusterBootstrapped env \<or> \<not> dedicatedRepoReady (status_Conditions (cluster s))
           \<or> list_all StanzaCreated (status_Repos (cluster s))"
  shows "reconcileStanzaCreate env configHash s = ((False, None), setReplicaRepoReady s)
         \<and> status_Repos (cluster (setReplicaRepoReady s)) = status_Repos (cluster s)
         \<and> log (setReplicaRepoReady s) =
             log s @ (case spec_Repos (cluster s) of
                        [] \<Rightarrow> []
                      | repo # _ \<Rightarrow>
                          [LedgerUpsert (replicaRepoReadyCondition (cluster s) (repo_Name repo))])
         \<and> cluster (setReplicaRepoReady s) =
             (cluster s)\<lparr>status_Conditions :=
                (case spec_Repos (cluster s) of
                   [] \<Rightarrow> status_Conditions (cluster s)
                 | repo # _ \<Rightarrow>
                     SetStatusCondition (status_Conditions (cluster s))
                       (replicaRepoReadyCondition (cluster s) (repo_Name repo)))\<rparr>"
proof -
  from assms have "stanzaCreate_body env configHash s = ((False, None), s)"
    by (auto simp: stanzaCreate_body_def Let_def)
  then have "reconcileStanzaCreate env configHash s = ((False, None), setReplicaRepoReady s)"
    by (simp add: reconcileStanzaCreate_def)
  then show ?thesis
    by (simp add: setReplicaRepoReady_def upsertCondition_def split: list.splits)
qed

theorem reconcileStanzaCreate_noop_witness:
  "\<not> ClusterBootstrapped (example_env\<lparr>ClusterBootstrapped := False\<rparr>)
   \<and> reconcileStanzaCreate (example_env\<lparr>ClusterBootstrapped := False\<rparr>) ''hash1''
        example_state = ((False, None), setReplicaRepoReady example_state)
   \<and> status_Repos (cluster (setReplicaRepoReady example_state))
       = status_Repos (cluster example_state)"
proof -
  let ?env = "example_env\<lparr>ClusterBootstrapped := False\<rparr>"
  have h: "\<not> ClusterBootstrapped ?env" by simp
  then have h': "\<not> ClusterBootstrapped ?env
                 \<or> \<not> dedicatedRepoReady (status_Conditions (cluster example_state))
                 \<or> list_all StanzaCreated (status_Repos (cluster example_state))"
    by blast
  from reconcileStanzaCreate_noop[OF h', of "''hash1''"] h show ?thesis by blast
qed

text \<open>
  Claim C6. When the preconditions hold, one pod matches the selector and the
  stanza-create command reports a configuration-hash mismatch (\<^verbatim>\<open>StanzaCreate\<close> returns
  \<^verbatim>\<open>(true, nil)\<close>), \<^verbatim>\<open>reconcileStanzaCreate\<close> returns \<^verbatim>\<open>(true, nil)\<close>, every repository
  status entry is as before, so no \<^verbatim>\<open>stanzaCreated\<close> flag is set, and the call adds to the
  trace the listing of the pods, the command and the upsert of the deferred function: no
  event.
\<close>

theorem reconcileStanzaCreate_hash_mismatch:
  assumes "ClusterBootstrapped env"
      and "dedicatedRepoReady (status_Conditions (cluster s))"
      and "\<not> list_all StanzaCreated (status_Repos (cluster s))"
      and "getPGBackRestExecSelector env (cluster s) = Inr (selector, containerName)"
      and "Client_List_Pods env (log s) selector = Inr [pod]"
      and "StanzaCreate env (log s @ [ListPods selector]) (pod_Name pod) containerName configHash
             = (True, None)"
      and "reconcileStanzaCreate env configHash s = (result, s')"
  shows "result = (True, None)
         \<and> status_Repos (cluster s') = status_Repos (cluster s)
         \<and> log s' =
             log s @ [ListPods selector,
                      StanzaCreateExec (pod_Name pod) containerName configHash] @
             (case spec_Repos (cluster s) of
                [] \<Rightarrow> []
              | repo # _ \<Rightarrow>
                  [LedgerUpsert (replicaRepoReadyCondition (cluster s) (repo_Name repo))])"
proof -
  let ?s2 = "record_action (StanzaCreateExec (pod_Name pod) containerName configHash)
               (record_action (ListPods selector) s)"
  from assms(1-6) have "stanzaCreate_body env configHash s = ((True, None), ?s2)"
    by (simp add: stanzaCreate_body_def Let_def record_action_def)
  with assms(7) have "result = (True, None)" and "s' = setReplicaRepoReady ?s2"
    by (simp_all add: reconcileStanzaCreate_def)
  then show ?thesis
    by (simp add: setReplicaRepoReady_def upsertCondition_def record_action_def
                  replicaRepoReadyCondition_def
             split: list.splits)
qed

theorem reconcileStanzaCreate_hash_mismatch_witness:
  "StanzaCreate (example_env\<lparr>StanzaCreate := (\<lambda>_ _ _ _. (True, None))\<rparr>)
       (log example_state @ [ListPods (ClusterPrimarySelector ''hippo'')])
       (pod_Name example_pod) ContainerDatabase ''hash1'' = (True, None)
   \<and> fst (reconcileStanzaCreate (example_env\<lparr>StanzaCreate := (\<lambda>_ _ _ _. (True, None))\<rparr>)
        ''hash1'' example_state) = (True, None)
   \<and> status_Repos (cluster (snd (reconcileStanzaCreate
         (example_env\<lparr>StanzaCreate := (\<lambda>_ _ _ _. (True, None))\<rparr>) ''hash1'' example_state)))
       = status_Repos (cluster example_state)"
proof -
  let ?env = "example_env\<lparr>StanzaCreate := (\<lambda>_ _ _ _. (True, None))\<rparr>"
  let ?X = "reconcileStanzaCreate ?env ''hash1'' example_state"
  have h1: "ClusterBootstrapped ?env" by (simp add: example_defs)
  have h2: "dedicatedRepoReady (status_Conditions (cluster example_state))"
    by (simp add: example_defs condition_defs)
  have h3: "\<not> list_all StanzaCreated (status_Repos (cluster example_state))"
    by (simp add: example_defs)
  have h4: "getPGBackRestExecSelector ?env (cluster example_state)
              = Inr (ClusterPrimarySelector ''hippo'', ContainerDatabase)"
    by (simp add: example_defs getPGBackRestExecSelector_def)
  have h5: "Client_List_Pods ?env (log example_state) (ClusterPrimarySelector ''hippo'')
              = Inr [example_pod]"
    by (simp add: example_defs)
  have h6: "StanzaCreate ?env (log example_state @ [ListPods (ClusterPrimarySelector ''hippo'')])
              (pod_Name example_pod) ContainerDatabase ''hash1'' = (True, None)"
    by simp
  have x: "?X = (fst ?X, snd ?X)" by simp
  from reconcileStanzaCreate_hash_mismatch[OF h1 h2 h3 h4 h5 h6 x] h6
  show ?thesis by blast
qed

text \<open>
  Claim C7, as stated, ends with \<^verbatim>\<open>ReplicaRepoReady\<close> true. When the repository at index 0
  has no status entry (here the status list holds \<^verbatim>\<open>repo2\<close> only, as after a failed apply
  of the volume of \<^verbatim>\<open>repo1\<close>), the stanza is created and the condition is unknown.
\<close>

theorem reconcileStanzaCreate_success_status_missing:
  "fst (reconcileStanzaCreate example_env ''hash1''
         (example_state\<lparr>cluster := example_cluster\<lparr>status_Repos :=
            [example_repo_status\<lparr>Name := ''repo2''\<rparr>]\<rparr>\<rparr>)) = (False, None)
   \<and> map_option cond_Status (FindStatusCondition
        (status_Conditions (cluster (snd (reconcileStanzaCreate example_env ''hash1''
           (example_state\<lparr>cluster := example_cluster\<lparr>status_Repos :=
              [example_repo_status\<lparr>Name := ''repo2''\<rparr>]\<rparr>\<rparr>)))))
        ConditionReplicaRepoReady) = Some ConditionUnknown"
  by (simp add: example_defs stanza_defs condition_defs)

text \<open>
  Claim C7, amended. When the cluster is bootstrapped, the host gate holds, some
  repository has no stanza, exactly one pod matches the selector, the stanza-create
  command succeeds without a hash mismatch, and the repository at index 0 of the
  specification has a status entry: every status entry has \<^verbatim>\<open>stanzaCreated\<close> true
  afterwards, the call lists the pods, runs the command, records one Normal
  \<^verbatim>\<open>StanzasCreated\<close> event and upserts the condition, in this order and nothing else, it
  returns \<^verbatim>\<open>(false, nil)\<close>, and \<^verbatim>\<open>ReplicaRepoReady\<close> is true in the ledger.
\<close>

theorem reconcileStanzaCreate_success:
  assumes "ClusterBootstrapped env"
      and "dedicatedRepoReady (status_Conditions (cluster s))"
      and "\<not> list_all StanzaCreated (status_Repos (cluster s))"
      and "getPGBackRestExecSelector env (cluster s) = Inr (selector, containerName)"
      and "Client_List_Pods env (log s) selector = Inr [pod]"
      and "StanzaCreate env (log s @ [ListPods selector]) (pod_Name pod) containerName configHash
             = (False, None)"
      and "spec_Repos (cluster s) = repo # repos"
      and "find (\<lambda>r. Name r = repo_Name repo) (status_Repos (cluster s)) = Some entry"
      and "reconcileStanzaCreate env configHash s = (result, s')"
  shows "result = (False, None)
         \<and> status_Repos (cluster s') =
             map (\<lambda>r. r\<lparr>StanzaCreated := True\<rparr>) (status_Repos (cluster s))
         \<and> list_all StanzaCreated (status_Repos (cluster s'))
         \<and> log s' = log s @
             [ListPods selector,
              StanzaCreateExec (pod_Name pod) containerName configHash,
              Event EventTypeNormal EventStanzasCreated
                ''pgBackRest stanza creation completed successfully'',
              LedgerUpsert (replicaRepoReadyCondition (cluster s') (repo_Name repo))]
         \<and> map_option cond_Status
             (FindStatusCondition (status_Conditions (cluster s')) ConditionReplicaRepoReady)
             = Some ConditionTrue"
proof -
  let ?s3 = "record_action (Event EventTypeNormal EventStanzasCreated
                ''pgBackRest stanza creation completed successfully'')
              (record_action (StanzaCreateExec (pod_Name pod) containerName configHash)
                (record_action (ListPods selector) s))"
  let ?s4 = "?s3\<lparr>cluster := (cluster ?s3)\<lparr>status_Repos :=
                 map (\<lambda>r. r\<lparr>StanzaCreated := True\<rparr>) (status_Repos (cluster ?s3))\<rparr>\<rparr>"
  from assms(1-6) have "stanzaCreate_body env configHash s = ((False, None), ?s4)"
    by (simp add: stanzaCreate_body_def Let_def record_action_def)
  with assms(9) have res: "result = (False, None)" and s': "s' = setReplicaRepoReady ?s4"
    by (simp_all add: reconcileStanzaCreate_def)
  have fnd: "find (\<lambda>r. Name r = repo_Name repo)
               (map (\<lambda>r. r\<lparr>StanzaCreated := True\<rparr>) (status_Repos (cluster s)))
             = Some (entry\<lparr>StanzaCreated := True\<rparr>)"
    using assms(8) by (rule find_Name_map_StanzaCreated)
  have st: "cond_Status (replicaRepoReadyCondition (cluster ?s4) (repo_Name repo)) = ConditionTrue"
    using fnd by (simp add: replicaRepoReadyCondition_Status record_action_def)
  have cnd: "map_option cond_Status
             (FindStatusCondition (status_Conditions (cluster s')) ConditionReplicaRepoReady)
             = Some ConditionTrue"
    using s' assms(7) st FindStatusCondition_SetStatusCondition
            [of "status_Conditions (cluster s)"
                "replicaRepoReadyCondition (cluster ?s4) (repo_Name repo)"]
    by (simp add: setReplicaRepoReady_def upsertCondition_def record_action_def)
  from res s' assms(7) cnd show ?thesis
    by (simp add: setReplicaRepoReady_def upsertCondition_def record_action_def)
qed

theorem reconcileStanzaCreate_success_witness:
  "StanzaCreate example_env (log example_state @ [ListPods (ClusterPrimarySelector ''hippo'')])
       (pod_Name example_pod) ContainerDatabase ''hash1'' = (False, None)
   \<and> find (\<lambda>r. Name r = ''repo1'') (status_Repos (cluster example_state))
       = Some example_repo_status
   \<and> fst (reconcileStanzaCreate example_env ''hash1'' example_state) = (False, None)
   \<and> list_all StanzaCreated (status_Repos (cluster
         (snd (reconcileStanzaCreate example_env ''hash1'' example_state))))
   \<and> map_option cond_Status (FindStatusCondition
        (status_Conditions (cluster (snd (reconcileStanzaCreate example_env ''hash1''
           example_state)))) ConditionReplicaRepoReady) = Some ConditionTrue"
proof -
  let ?X = "reconcileStanzaCreate example_env ''hash1'' example_state"
  have h1: "ClusterBootstrapped example_env" by (simp add: example_defs)
  have h2: "dedicatedRepoReady (status_Conditions (cluster example_state))"
    by (simp add: example_defs condition_defs)
  have h3: "\<not> list_all StanzaCreated (status_Repos (cluster example_state))"
    by (simp add: example_defs)
  have h4: "getPGBackRestExecSelector example_env (cluster example_state)
              = Inr (ClusterPrimarySelector ''hippo'', ContainerDatabase)"
    by (simp add: example_defs getPGBackRestExecSelector_def)
  have h5: "Client_List_Pods example_env (log example_state) (ClusterPrimarySelector ''hippo'')
              = Inr [example_pod]"
    by (simp add: example_defs)
  have h6: "StanzaCreate example_env
              (log example_state @ [ListPods (ClusterPrimarySelector ''hippo'')])
              (pod_Name example_pod) ContainerDatabase ''hash1'' = (False, None)"
    by (simp add: example_defs)
  have h7: "spec_Repos (cluster example_state) =
              \<lparr>repo_Name = ''repo1'', repo_Volume = True, repo_BackupSchedules = None\<rparr> # []"
    by (simp add: example_defs)
  have h8: "find (\<lambda>r. Name r = repo_Name
                \<lparr>repo_Name = ''repo1'', repo_Volume = True, repo_BackupSchedules = None\<rparr>)
              (status_Repos (cluster example_state)) = Some example_repo_status"
    by (simp add: example_defs)
  have x: "?X = (fst ?X, snd ?X)" by simp
  from h8 have h8': "find (\<lambda>r. Name r = ''repo1'') (status_Repos (cluster example_state))
       = Some example_repo_status" by simp
  from reconcileStanzaCreate_success[OF h1 h2 h3 h4 h5 h6 h7 h8 x] h6 h8'
  show ?thesis by blast
qed

section \<open>Properties of reconcileReplicaCreateBackup and of the pod lookup\<close>

text \<open>
  Claim C8, as stated, has both functions fail whenever the pods matching the selector
  are not exactly one. Neither looks for pods when it has nothing to do: with every
  stanza created and the replica-create backup complete, no pod matches and both return
  without an error.
\<close>

theorem no_pod_no_error:
  "Client_List_Pods (example_env\<lparr>Client_List_Pods := (\<lambda>_ _. Inr [])\<rparr>) []
       (ClusterPrimarySelector ''hippo'') = Inr []
   \<and> fst (reconcileStanzaCreate (example_env\<lparr>Client_List_Pods := (\<lambda>_ _. Inr [])\<rparr>) ''hash1''
        (example_state\<lparr>cluster := example_cluster\<lparr>status_Repos :=
           [example_repo_status\<lparr>StanzaCreated := True,
                                ReplicaCreateBackupComplete := True\<rparr>]\<rparr>\<rparr>)) = (False, None)
   \<and> fst (reconcileReplicaCreateBackup (example_env\<lparr>Client_List_Pods := (\<lambda>_ _. Inr [])\<rparr>)
        [] (Some ''hippo-pgbackrest'') ''hash1'' ''repo1''
        (example_state\<lparr>cluster := example_cluster\<lparr>status_Repos :=
           [example_repo_status\<lparr>StanzaCreated := True,
                                ReplicaCreateBackupComplete := True\<rparr>]\<rparr>\<rparr>)) = Return None"
  by (simp add: example_defs stanza_defs backup_defs condition_defs)

text \<open>
  Claim C8, amended. When \<^verbatim>\<open>reconcileStanzaCreate\<close> gets as far as the pod lookup (the
  cluster is bootstrapped, the host gate holds, some repository has no stanza, the
  selector is computed and the listing succeeds) and the pods listed are not exactly one,
  it returns an error; and when \<^verbatim>\<open>reconcileReplicaCreateBackup\<close> gets as far as the pod
  lookup (the cluster is bootstrapped, the replica-create repository has a status entry
  whose backup is not complete, the selector is computed and the listing succeeds) and
  the pods listed are not exactly one, it returns an error. On these paths each lists the
  pods and upserts its condition through the deferred function and does nothing else: no
  command, no delete, no job, no event, and the repository status entries are as before.
\<close>

theorem pod_count_error:
  assumes "ClusterBootstrapped env"
      and "dedicatedRepoReady (status_Conditions (cluster s))"
      and "\<not> list_all StanzaCreated (status_Repos (cluster s))"
      and "getPGBackRestExecSelector env (cluster s) = Inr (selector, containerName)"
      and "Client_List_Pods env (log s) selector = Inr pods"
      and "length pods \<noteq> 1"
      and "repoStatusIndex replicaCreateRepoName (status_Repos (cluster t)) = Some i"
      and "\<not> ReplicaCreateBackupComplete (status_Repos (cluster t) ! i)"
      and "getPGBackRestExecSelector env (cluster t) = Inr (selector', containerName')"
      and "Client_List_Pods env (log t) selector' = Inr pods'"
      and "length pods' \<noteq> 1"
  shows "(\<exists>err s'. reconcileStanzaCreate env configHash s = ((False, Some err), s')
            \<and> status_Repos (cluster s') = status_Repos (cluster s)
            \<and> log s' = log s @ ListPods selector #
                 (case spec_Repos (cluster s) of
                    [] \<Rightarrow> []
                  | repo # _ \<Rightarrow>
                      [LedgerUpsert (replicaRepoReadyCondition (cluster s) (repo_Name repo))]))
       \<and> (\<exists>err t'. reconcileReplicaCreateBackup env jobs serviceAccount
                       configHash replicaCreateRepoName t = (Return (Some err), t')
            \<and> status_Repos (cluster t') = status_Repos (cluster t)
            \<and> log t' = log t @
                 [ListPods selector',
                  LedgerUpsert (replicaCreateCondition (cluster t) (Some i))])"
proof
  from assms(1-6) have
    "stanzaCreate_body env configHash s =
       ((False, Some (Error ''invalid number of Pods found when attempting to create stanzas'')),
        record_action (ListPods selector) s)"
    by (simp add: stanzaCreate_body_def Let_def)
  then show "\<exists>err s'. reconcileStanzaCreate env configHash s = ((False, Some err), s')
            \<and> status_Repos (cluster s') = status_Repos (cluster s)
            \<and> log s' = log s @ ListPods selector #
                 (case spec_Repos (cluster s) of
                    [] \<Rightarrow> []
                  | repo # _ \<Rightarrow>
                      [LedgerUpsert (replicaRepoReadyCondition (cluster s) (repo_Name repo))])"
    by (simp add: reconcileStanzaCreate_def setReplicaRepoReady_def upsertCondition_def
                  record_action_def replicaRepoReadyCondition_def split: list.splits)
next
  from assms(1,7-11) have
    "replicaCreateBackup_body env jobs serviceAccount configHash
       replicaCreateRepoName (Some i) t =
       (Return (Some (Error (''invalid number of Pods found when attempting '' @
                          ''to create replica create backup''))),
        record_action (ListPods selector') t)"
    by (simp add: replicaCreateBackup_body_def Let_def)
  with assms(7) show "\<exists>err t'. reconcileReplicaCreateBackup env jobs
                       serviceAccount configHash replicaCreateRepoName t = (Return (Some err), t')
            \<and> status_Repos (cluster t') = status_Repos (cluster t)
            \<and> log t' = log t @
                 [ListPods selector',
                  LedgerUpsert (replicaCreateCondition (cluster t) (Some i))]"
    by (simp add: reconcileReplicaCreateBackup_def setReplicaCreate_def upsertCondition_def
                  record_action_def replicaCreateCondition_def)
qed

theorem pod_count_error_witness:
  "Client_List_Pods (example_env\<lparr>Client_List_Pods := (\<lambda>_ _. Inr [])\<rparr>) (log example_state)
       (ClusterPrimarySelector ''hippo'') = Inr []
   \<and> length ([] :: Pod list) \<noteq> 1
   \<and> (\<exists>err s'. reconcileStanzaCreate (example_env\<lparr>Client_List_Pods := (\<lambda>_ _. Inr [])\<rparr>)
                   ''hash1'' example_state = ((False, Some err), s')
         \<and> status_Repos (cluster s') = status_Repos (cluster example_state))
   \<and> (\<exists>err t'. reconcileReplicaCreateBackup
                   (example_env\<lparr>Client_List_Pods := (\<lambda>_ _. Inr [])\<rparr>)
                   [] (Some ''hippo-pgbackrest'') ''hash1'' ''repo1'' example_state
                 = (Return (Some err), t')
         \<and> status_Repos (cluster t') = status_Repos (cluster example_state))"
proof -
  let ?env = "example_env\<lparr>Client_List_Pods := (\<lambda>_ _. Inr [])\<rparr>"
  have h1: "ClusterBootstrapped ?env" by (simp add: example_defs)
  have h2: "dedicatedRepoReady (status_Conditions (cluster example_state))"
    by (simp add: example_defs condition_defs)
  have h3: "\<not> list_all StanzaCreated (status_Repos (cluster example_state))"
    by (simp add: example_defs)
  have h4: "getPGBackRestExecSelector ?env (cluster example_state)
              = Inr (ClusterPrimarySelector ''hippo'', ContainerDatabase)"
    by (simp add: example_defs getPGBackRestExecSelector_def)
  have h5: "Client_List_Pods ?env (log example_state) (ClusterPrimarySelector ''hippo'') = Inr []"
    by simp
  have h6: "length ([] :: Pod list) \<noteq> 1" by simp
  have h7: "repoStatusIndex ''repo1'' (status_Repos (cluster example_state)) = Some 0"
    by (simp add: example_defs)
  have h8: "\<not> ReplicaCreateBackupComplete (status_Repos (cluster example_state) ! 0)"
    by (simp add: example_defs)
  note t = pod_count_error[OF h1 h2 h3 h4 h5 h6 h7 h8 h4 h5 h6,
             of "''hash1''" "[]" "Some ''hippo-pgbackrest''"]
  from t have a: "\<exists>err s'. reconcileStanzaCreate ?env ''hash1'' example_state
                              = ((False, Some err), s')
         \<and> status_Repos (cluster s') = status_Repos (cluster example_state)"
    by blast
  from t have b: "\<exists>err t'. reconcileReplicaCreateBackup ?env
                   [] (Some ''hippo-pgbackrest'') ''hash1'' ''repo1'' example_state
                 = (Return (Some err), t')
         \<and> status_Repos (cluster t') = status_Repos (cluster example_state)"
    by blast
  from h5 h6 a b show ?thesis by blast
qed

text \<open>
  Claim C9, as stated, has every call delete a job that has drifted. The function
  returns before it looks at the jobs when the backup of the replica-create repository
  is already complete: the job below carries the configuration hash \<^verbatim>\<open>hash1\<close>, the
  current hash is \<^verbatim>\<open>hash2\<close>, and the call only upserts its condition.
\<close>

theorem drifted_job_of_complete_repo_kept:
  "jobDrifted ''hash2'' ''repo1'' ''hippo-instance1-abcd.conf'' example_job
   \<and> reconcileReplicaCreateBackup example_env [example_job] (Some ''hippo-pgbackrest'')
        ''hash2'' ''repo1''
        (example_state\<lparr>cluster := example_cluster\<lparr>status_Repos :=
           [example_repo_status\<lparr>StanzaCreated := True,
                                ReplicaCreateBackupComplete := True\<rparr>]\<rparr>\<rparr>)
     = (Return None,
        \<lparr>cluster = example_cluster
           \<lparr>status_Repos := [example_repo_status\<lparr>StanzaCreated := True,
                                ReplicaCreateBackupComplete := True\<rparr>],
            status_Conditions :=
              [\<lparr>cond_Type = ''PGBackRestReplicaCreate'', cond_Status = ConditionTrue,
                cond_ObservedGeneration = 1, cond_Reason = ''RepoBackupComplete'',
                cond_Message = ''pgBackRest replica creation is now possible''\<rparr>]\<rparr>,
         log = [LedgerUpsert
                 \<lparr>cond_Type = ''PGBackRestReplicaCreate'', cond_Status = ConditionTrue,
                  cond_ObservedGeneration = 1, cond_Reason = ''RepoBackupComplete'',
                  cond_Message = ''pgBackRest replica creation is now possible''\<rparr>]\<rparr>)"
  by (simp add: example_defs example_job_def backup_defs condition_defs)

lemma reconcileExistingJob_drifted:
  assumes "jobDrifted configHash replicaCreateRepoName configName job"
  shows "reconcileExistingJob env configHash replicaCreateRepoName configName dr rr i job s =
     (let twice = ((\<not> obj_JobCompleted job \<and> \<not> obj_JobFailed job) \<and> (\<not> dr \<or> \<not> rr)
                   \<and> Client_Delete env (log s) job = None)
      in (Some (if twice then Client_Delete env (log s @ [Delete job]) job
                else Client_Delete env (log s) job),
          s\<lparr>log := log s @ (if twice then [Delete job, Delete job] else [Delete job])\<rparr>))"
  using assms
  by (auto simp: reconcileExistingJob_def Let_def record_action_def
           split: option.splits if_splits)

text \<open>
  Claim C9, amended. Let \<^verbatim>\<open>reconcileReplicaCreateBackup\<close> get as far as the existing job
  (the cluster is bootstrapped, the replica-create repository has a status entry whose
  backup is not complete, and exactly one pod matches the selector), and let that job
  have failed, or its repository label differ from the replica-create repository, or its
  configuration-name or configuration-hash annotation differ from the current value.
  Write \<open>h\<close> for the trace after the pod listing. When the job is running (neither
  completed nor failed), one of the two readiness gates does not hold, and the delete of
  the job issued for that reason at \<open>h\<close> succeeds, the call deletes the job a second time
  and returns what that second delete answers at the trace \<open>h\<close> extended by the first
  delete. In every other case the call issues exactly one delete and returns what it
  answers at \<open>h\<close>. Either way the trace of the call is the pod listing, the one or two
  deletes and the upsert of the \<^verbatim>\<open>ReplicaCreate\<close> condition, so no job is applied, and the
  cluster changes by that upsert only.
\<close>

theorem reconcileReplicaCreateBackup_drifted_job:
  assumes "ClusterBootstrapped env"
      and "repoStatusIndex replicaCreateRepoName (status_Repos (cluster s)) = Some i"
      and "\<not> ReplicaCreateBackupComplete (status_Repos (cluster s) ! i)"
      and "getPGBackRestExecSelector env (cluster s) = Inr (selector, containerName)"
      and "Client_List_Pods env (log s) selector = Inr [pod]"
      and "jobDrifted configHash replicaCreateRepoName
             (if DedicatedRepoHostEnabled env then CMRepoKey env
              else getLabel (pod_Labels pod) LabelInstance @ ''.conf'') job"
      and "reconcileReplicaCreateBackup env (job # jobs) serviceAccount configHash
             replicaCreateRepoName s = (result, s')"
  shows "let h = log s @ [ListPods selector];
             twice = ((\<not> obj_JobCompleted job \<and> \<not> obj_JobFailed job)
                      \<and> (\<not> dedicatedRepoReady (status_Conditions (cluster s))
                         \<or> \<not> replicaRepoReady (status_Conditions (cluster s)))
                      \<and> Client_Delete env h job = None)
         in result = Return (if twice then Client_Delete env (h @ [Delete job]) job
                             else Client_Delete env h job)
          \<and> log s' = h @ (if twice then [Delete job, Delete job] else [Delete job])
                       @ [LedgerUpsert (replicaCreateCondition (cluster s) (Some i))]
          \<and> cluster s' = (cluster s)\<lparr>status_Conditions :=
                SetStatusCondition (status_Conditions (cluster s))
                  (replicaCreateCondition (cluster s) (Some i))\<rparr>
          \<and> status_Repos (cluster s') = status_Repos (cluster s)"
proof -
  let ?configName = "if DedicatedRepoHostEnabled env then CMRepoKey env
              else getLabel (pod_Labels pod) LabelInstance @ ''.conf''"
  let ?s1 = "record_action (ListPods selector) s"
  let ?h = "log s @ [ListPods selector]"
  let ?twice = "(\<not> obj_JobCompleted job \<and> \<not> obj_JobFailed job)
                      \<and> (\<not> dedicatedRepoReady (status_Conditions (cluster s))
                         \<or> \<not> replicaRepoReady (status_Conditions (cluster s)))
                      \<and> Client_Delete env ?h job = None"
  let ?r = "if ?twice then Client_Delete env (?h @ [Delete job]) job
            else Client_Delete env ?h job"
  let ?s2 = "s\<lparr>log := ?h @ (if ?twice then [Delete job, Delete job] else [Delete job])\<rparr>"
  have ex: "reconcileExistingJob env configHash replicaCreateRepoName ?configName
      (dedicatedRepoReady (status_Conditions (cluster s)))
      (replicaRepoReady (status_Conditions (cluster s))) i job ?s1 = (Some ?r, ?s2)"
    unfolding reconcileExistingJob_drifted[OF assms(6)]
    by (simp add: Let_def record_action_def)
  from assms(1-5) ex have
    "replicaCreateBackup_body env (job # jobs) serviceAccount configHash
       replicaCreateRepoName (Some i) s = (Return ?r, ?s2)"
    by (simp add: replicaCreateBackup_body_def Let_def)
  with assms(2,7) have res: "result = Return ?r"
    and s': "s' = setReplicaCreate (Some i) ?s2"
    by (simp_all add: reconcileReplicaCreateBackup_def)
  have c: "replicaCreateCondition (cluster ?s2) (Some i) = replicaCreateCondition (cluster s) (Some i)"
    by simp
  from res s' show ?thesis
    unfolding Let_def
    by (simp add: setReplicaCreate_def upsertCondition_def c)
qed

theorem reconcileReplicaCreateBackup_drifted_job_witness:
  "jobDrifted ''hash2'' ''repo1'' ''hippo-instance1-abcd.conf'' example_job
   \<and> \<not> obj_JobCompleted example_job \<and> \<not> obj_JobFailed example_job
   \<and> \<not> replicaRepoReady (status_Conditions (cluster example_state))
   \<and> Client_Delete example_gone_env [ListPods (ClusterPrimarySelector ''hippo'')] example_job
       = None
   \<and> Client_Delete example_gone_env
        [ListPods (ClusterPrimarySelector ''hippo''), Delete example_job] example_job
       = Some (Error ''not found'')
   \<and> fst (reconcileReplicaCreateBackup example_gone_env [example_job]
             (Some ''hippo-pgbackrest'') ''hash2'' ''repo1'' example_state)
       = Return (Some (Error ''not found''))
   \<and> log (snd (reconcileReplicaCreateBackup example_gone_env [example_job]
                  (Some ''hippo-pgbackrest'') ''hash2'' ''repo1'' example_state))
       = [ListPods (ClusterPrimarySelector ''hippo''), Delete example_job, Delete example_job,
          LedgerUpsert (replicaCreateCondition (cluster example_state) (Some 0))]
   \<and> status_Repos (cluster (snd (reconcileReplicaCreateBackup example_gone_env [example_job]
                  (Some ''hippo-pgbackrest'') ''hash2'' ''repo1'' example_state)))
       = [example_repo_status]"
proof -
  let ?X = "reconcileReplicaCreateBackup example_gone_env [example_job]
                 (Some ''hippo-pgbackrest'') ''hash2'' ''repo1'' example_state"
  have h1: "ClusterBootstrapped example_gone_env"
    by (simp add: example_defs example_gone_env_def)
  have h2: "repoStatusIndex ''repo1'' (status_Repos (cluster example_state)) = Some 0"
    by (simp add: example_defs)
  have h3: "\<not> ReplicaCreateBackupComplete (status_Repos (cluster example_state) ! 0)"
    by (simp add: example_defs)
  have h4: "getPGBackRestExecSelector example_gone_env (cluster example_state)
              = Inr (ClusterPrimarySelector ''hippo'', ContainerDatabase)"
    by (simp add: example_defs example_gone_env_def getPGBackRestExecSelector_def)
  have h5: "Client_List_Pods example_gone_env (log example_state)
              (ClusterPrimarySelector ''hippo'') = Inr [example_pod]"
    by (simp add: example_defs example_gone_env_def)
  have d: "jobDrifted ''hash2'' ''repo1'' ''hippo-instance1-abcd.conf'' example_job"
    by (simp add: jobDrifted_def example_defs example_job_def getLabel_def getAnnotation_def)
  have h6: "jobDrifted ''hash2'' ''repo1''
             (if DedicatedRepoHostEnabled example_gone_env then CMRepoKey example_gone_env
              else getLabel (pod_Labels example_pod) LabelInstance @ ''.conf'') example_job"
    by (simp add: jobDrifted_def example_defs example_gone_env_def example_job_def
                  getLabel_def getAnnotation_def)
  have x: "reconcileReplicaCreateBackup example_gone_env (example_job # [])
             (Some ''hippo-pgbackrest'') ''hash2'' ''repo1'' example_state
           = (fst ?X, snd ?X)" by simp
  have j: "\<not> obj_JobCompleted example_job" "\<not> obj_JobFailed example_job"
    by (simp_all add: example_job_def)
  have r: "\<not> replicaRepoReady (status_Conditions (cluster example_state))"
    by (simp add: example_defs replicaRepoReady_def condition_defs)
  have l: "log example_state = []" by (simp add: example_defs)
  have d1: "Client_Delete example_gone_env [ListPods (ClusterPrimarySelector ''hippo'')]
              example_job = None"
    by (simp add: example_gone_env_def)
  have d2: "Client_Delete example_gone_env
        [ListPods (ClusterPrimarySelector ''hippo''), Delete example_job] example_job
       = Some (Error ''not found'')"
    by (simp add: example_gone_env_def)
  have sr: "status_Repos (cluster example_state) = [example_repo_status]"
    by (simp add: example_defs)
  note t = reconcileReplicaCreateBackup_drifted_job[OF h1 h2 h3 h4 h5 h6 x]
  from t j r l d1 d2 sr have
    "fst ?X = Return (Some (Error ''not found''))
     \<and> log (snd ?X) = [ListPods (ClusterPrimarySelector ''hippo''), Delete example_job,
          Delete example_job,
          LedgerUpsert (replicaCreateCondition (cluster example_state) (Some 0))]
     \<and> status_Repos (cluster (snd ?X)) = [example_repo_status]"
    by (simp add: Let_def)
  with d j r d1 d2 show ?thesis by simp
qed

text \<open>
  A \<^verbatim>\<open>RepoHostReady\<close> condition in front of the ledger is carried through both functions:
  they read it through the gate only, and the conditions they upsert are of other types.
\<close>

lemma replicaCreateCondition_Type [simp]:
  "cond_Type (replicaCreateCondition c i) = ConditionReplicaCreate"
  by (simp add: replicaCreateCondition_def split: option.splits)

lemma replicaCreateCondition_conditions_irrelevant [simp]:
  "replicaCreateCondition (c\<lparr>status_Conditions := cs\<rparr>) i = replicaCreateCondition c i"
  by (simp add: replicaCreateCondition_def split: option.splits)

lemma withCondition_simps [simp]:
  "log (withCondition c s) = log s"
  "status_Repos (cluster (withCondition c s)) = status_Repos (cluster s)"
  "spec_Repos (cluster (withCondition c s)) = spec_Repos (cluster s)"
  "status_Conditions (cluster (withCondition c s)) = c # status_Conditions (cluster s)"
  "record_action a (withCondition c s) = withCondition c (record_action a s)"
  "getPGBackRestExecSelector env (cluster (withCondition c s))
     = getPGBackRestExecSelector env (cluster s)"
  by (simp_all add: withCondition_def record_action_def getPGBackRestExecSelector_def)

lemma withCondition_upsert:
  "cond_Type c \<noteq> cond_Type ready \<Longrightarrow>
   upsertCondition c (withCondition ready s) = withCondition ready (upsertCondition c s)"
  by (simp add: withCondition_def upsertCondition_def)

lemma dedicatedRepoReady_absent:
  "FindStatusCondition conditions ConditionRepoHostReady = None \<Longrightarrow>
     dedicatedRepoReady conditions"
  by (simp add: dedicatedRepoReady_def)

lemma dedicatedRepoReady_ready:
  "cond_Type ready = ConditionRepoHostReady \<Longrightarrow> cond_Status ready = ConditionTrue \<Longrightarrow>
     dedicatedRepoReady (ready # conditions)"
  by (simp add: dedicatedRepoReady_def FindStatusCondition_def)

lemma replicaRepoReady_ready:
  "cond_Type ready = ConditionRepoHostReady \<Longrightarrow>
     replicaRepoReady (ready # conditions) = replicaRepoReady conditions"
  by (simp add: replicaRepoReady_def FindStatusCondition_def ConditionRepoHostReady_def
                ConditionReplicaRepoReady_def)

lemma stanzaCreate_body_withCondition:
  assumes "FindStatusCondition (status_Conditions (cluster s)) ConditionRepoHostReady = None"
      and "cond_Type ready = ConditionRepoHostReady" and "cond_Status ready = ConditionTrue"
  shows "stanzaCreate_body env configHash (withCondition ready s)
         = (fst (stanzaCreate_body env configHash s),
            withCondition ready (snd (stanzaCreate_body env configHash s)))"
  using dedicatedRepoReady_absent[OF assms(1)] dedicatedRepoReady_ready[OF assms(2,3)]
  by (auto simp: stanzaCreate_body_def Let_def
           split: sum.splits prod.splits option.splits error.splits)
     (simp_all add: withCondition_def record_action_def)

lemma setReplicaRepoReady_withCondition:
  assumes "cond_Type ready = ConditionRepoHostReady"
  shows "setReplicaRepoReady (withCondition ready s) = withCondition ready (setReplicaRepoReady s)"
proof -
  have "cond_Type (replicaRepoReadyCondition c n) \<noteq> cond_Type ready" for c n
    using assms by (simp add: ConditionRepoHostReady_def ConditionReplicaRepoReady_def)
  then show ?thesis
    by (simp add: setReplicaRepoReady_def withCondition_upsert split: list.splits)
       (simp add: withCondition_def)
qed

lemma reconcileStanzaCreate_withCondition:
  assumes "FindStatusCondition (status_Conditions (cluster s)) ConditionRepoHostReady = None"
      and "cond_Type ready = ConditionRepoHostReady" and "cond_Status ready = ConditionTrue"
  shows "reconcileStanzaCreate env configHash (withCondition ready s)
         = (fst (reconcileStanzaCreate env configHash s),
            withCondition ready (snd (reconcileStanzaCreate env configHash s)))"
  by (simp add: reconcileStanzaCreate_def stanzaCreate_body_withCondition[OF assms]
                setReplicaRepoReady_withCondition[OF assms(2)] split: prod.splits)

lemma reconcileExistingJob_withCondition:
  "reconcileExistingJob env configHash name configName dr rr i job (withCondition ready s)
   = (fst (reconcileExistingJob env configHash name configName dr rr i job s),
      withCondition ready (snd (reconcileExistingJob env configHash name configName dr rr i job s)))"
  by (auto simp: reconcileExistingJob_def Let_def split: option.splits)
     (simp_all add: withCondition_def record_action_def)

lemma createBackupJob_withCondition:
  "createBackupJob env sa configHash name configName selector containerName job
     (withCondition ready s)
   = (fst (createBackupJob env sa configHash name configName selector containerName job s),
      withCondition ready
        (snd (createBackupJob env sa configHash name configName selector containerName job s)))"
proof -
  have c: "cluster (withCondition ready s)
             = (cluster s)\<lparr>status_Conditions := ready # status_Conditions (cluster s)\<rparr>"
    by (simp add: withCondition_def)
  have a: "backupJobIntent env (cluster (withCondition ready s)) configHash configName job
        = backupJobIntent env (cluster s) configHash configName job"
    by (simp add: c backupJobIntent_def split: option.splits list.splits)
  have b: "generateBackupJobSpecIntent env (cluster (withCondition ready s)) sel cn n san cfg ls
        = generateBackupJobSpecIntent env (cluster s) sel cn n san cfg ls" for sel cn n san cfg ls
    by (simp add: c generateBackupJobSpecIntent_def Let_def)
  show ?thesis
    by (simp add: createBackupJob_def a b Let_def
             split: outcome.splits option.splits sum.splits)
qed

lemma replicaCreateBackup_body_withCondition:
  assumes "FindStatusCondition (status_Conditions (cluster s)) ConditionRepoHostReady = None"
      and "cond_Type ready = ConditionRepoHostReady" and "cond_Status ready = ConditionTrue"
  shows "replicaCreateBackup_body env jobs sa configHash name idx (withCondition ready s)
         = (fst (replicaCreateBackup_body env jobs sa configHash name idx s),
            withCondition ready (snd (replicaCreateBackup_body env jobs sa configHash name idx s)))"
  using dedicatedRepoReady_absent[OF assms(1)] dedicatedRepoReady_ready[OF assms(2,3)]
  by (simp add: replicaCreateBackup_body_def Let_def replicaRepoReady_ready[OF assms(2)]
                reconcileExistingJob_withCondition createBackupJob_withCondition
                case_prod_beta
           split: option.splits sum.splits list.splits)

lemma setReplicaCreate_withCondition:
  assumes "cond_Type ready = ConditionRepoHostReady"
  shows "setReplicaCreate idx (withCondition ready s) = withCondition ready (setReplicaCreate idx s)"
proof -
  have "cond_Type (replicaCreateCondition c i) \<noteq> cond_Type ready" for c i
    using assms by (simp add: ConditionRepoHostReady_def ConditionReplicaCreate_def)
  then show ?thesis
    by (simp add: setReplicaCreate_def withCondition_upsert)
       (simp add: withCondition_def)
qed

lemma reconcileReplicaCreateBackup_withCondition:
  assumes "FindStatusCondition (status_Conditions (cluster s)) ConditionRepoHostReady = None"
      and "cond_Type ready = ConditionRepoHostReady" and "cond_Status ready = ConditionTrue"
  shows "reconcileReplicaCreateBackup env jobs sa configHash name (withCondition ready s)
         = (fst (reconcileReplicaCreateBackup env jobs sa configHash name s),
            withCondition ready (snd (reconcileReplicaCreateBackup env jobs sa configHash name s)))"
  by (simp add: reconcileReplicaCreateBackup_def replicaCreateBackup_body_withCondition[OF assms]
                setReplicaCreate_withCondition[OF assms(2)] Let_def split: prod.splits)


text \<open>
  Claim C10. When the ledger holds no \<^verbatim>\<open>RepoHostReady\<close> condition, the readiness gate of
  the dedicated repository host, which \<^verbatim>\<open>reconcileStanzaCreate\<close> and
  \<^verbatim>\<open>reconcileReplicaCreateBackup\<close> compute alike, is true, and every call of either
  function, whatever the jobs, the service account and the answers of the API server,
  returns the same result, leaves the same trace and makes the same changes to the
  cluster as the same call made with a \<^verbatim>\<open>RepoHostReady\<close> condition of status true in the
  ledger. So the absence does not stand in the way of anything that a ready host allows.
  In particular, with the cluster bootstrapped, a stanza missing and one pod found, the
  stanza-create command is executed, and when it succeeds every status entry has its
  stanza; and with the replica-create repository ready and not yet backed up and one pod
  found, the backup job is applied, both when there is no job yet and when there is a
  job that is neither completed nor drifted, which is then not deleted.
\<close>

theorem host_gate_absent_condition:
  assumes "FindStatusCondition (status_Conditions (cluster s)) ConditionRepoHostReady = None"
      and "cond_Type ready = ConditionRepoHostReady"
      and "cond_Status ready = ConditionTrue"
  shows "dedicatedRepoReady (status_Conditions (cluster s))
    \<and> reconcileStanzaCreate env configHash (withCondition ready s)
        = (fst (reconcileStanzaCreate env configHash s),
           withCondition ready (snd (reconcileStanzaCreate env configHash s)))
    \<and> reconcileReplicaCreateBackup env jobs serviceAccount configHash replicaCreateRepoName
          (withCondition ready s)
        = (fst (reconcileReplicaCreateBackup env jobs serviceAccount configHash
                  replicaCreateRepoName s),
           withCondition ready
             (snd (reconcileReplicaCreateBackup env jobs serviceAccount configHash
                     replicaCreateRepoName s)))
    \<and> (ClusterBootstrapped env
        \<and> \<not> list_all StanzaCreated (status_Repos (cluster s))
        \<and> getPGBackRestExecSelector env (cluster s) = Inr (selector, containerName)
        \<and> Client_List_Pods env (log s) selector = Inr [pod]
        \<longrightarrow> take (length (log s) + 2) (log (snd (reconcileStanzaCreate env configHash s)))
               = log s @ [ListPods selector,
                          StanzaCreateExec (pod_Name pod) containerName configHash]
           \<and> (StanzaCreate env (log s @ [ListPods selector]) (pod_Name pod) containerName
                 configHash = (False, None)
                \<longrightarrow> fst (reconcileStanzaCreate env configHash s) = (False, None)
                    \<and> list_all StanzaCreated
                         (status_Repos (cluster (snd (reconcileStanzaCreate env configHash s))))))
    \<and> (ClusterBootstrapped env
        \<and> repoStatusIndex replicaCreateRepoName (status_Repos (cluster s)) = Some i
        \<and> \<not> ReplicaCreateBackupComplete (status_Repos (cluster s) ! i)
        \<and> replicaRepoReady (status_Conditions (cluster s))
        \<and> getPGBackRestExecSelector env (cluster s) = Inr (selector, containerName)
        \<and> Client_List_Pods env (log s) selector = Inr [pod]
        \<and> (case jobs of
              [] \<Rightarrow> spec_Repos (cluster s) \<noteq> []
            | job # _ \<Rightarrow>
                \<not> obj_JobCompleted job
                \<and> \<not> jobDrifted configHash replicaCreateRepoName
                      (if DedicatedRepoHostEnabled env then CMRepoKey env
                       else getLabel (pod_Labels pod) LabelInstance @ ''.conf'') job)
        \<and> AddConfigsToPod env
             (if DedicatedRepoHostEnabled env then CMRepoKey env
              else getLabel (pod_Labels pod) LabelInstance @ ''.conf'') = None
        \<and> (\<forall>obj. SetControllerReference env obj = None)
        \<longrightarrow> (\<exists>applied spec.
              log (snd (reconcileReplicaCreateBackup env jobs (Some serviceAccountName)
                              configHash replicaCreateRepoName s))
              = log s @ [ListPods selector, ApplyJob applied spec,
                 LedgerUpsert (replicaCreateCondition (cluster s) (Some i))]))"
proof (intro conjI impI)
  show gate: "dedicatedRepoReady (status_Conditions (cluster s))"
    using assms(1) by (rule dedicatedRepoReady_absent)
  show "reconcileStanzaCreate env configHash (withCondition ready s)
        = (fst (reconcileStanzaCreate env configHash s),
           withCondition ready (snd (reconcileStanzaCreate env configHash s)))"
    using assms by (rule reconcileStanzaCreate_withCondition)
  show "reconcileReplicaCreateBackup env jobs serviceAccount configHash replicaCreateRepoName
          (withCondition ready s)
        = (fst (reconcileReplicaCreateBackup env jobs serviceAccount configHash
                  replicaCreateRepoName s),
           withCondition ready
             (snd (reconcileReplicaCreateBackup env jobs serviceAccount configHash
                     replicaCreateRepoName s)))"
    using assms by (rule reconcileReplicaCreateBackup_withCondition)
  {
    assume a: "ClusterBootstrapped env
        \<and> \<not> list_all StanzaCreated (status_Repos (cluster s))
        \<and> getPGBackRestExecSelector env (cluster s) = Inr (selector, containerName)
        \<and> Client_List_Pods env (log s) selector = Inr [pod]"
    let ?s2 = "record_action (StanzaCreateExec (pod_Name pod) containerName configHash)
                (record_action (ListPods selector) s)"
    have l2: "log ?s2 = log s @ [ListPods selector,
                StanzaCreateExec (pod_Name pod) containerName configHash]"
      by (simp add: record_action_def)
    from a gate have "\<exists>new. log (snd (stanzaCreate_body env configHash s)) = log ?s2 @ new"
      by (auto simp: stanzaCreate_body_def Let_def record_action_def
               split: prod.splits option.splits error.splits)
    then obtain new where
      "log (snd (stanzaCreate_body env configHash s)) = log ?s2 @ new" by blast
    then have "\<exists>new. log (snd (reconcileStanzaCreate env configHash s)) = log ?s2 @ new"
      by (cases "stanzaCreate_body env configHash s")
         (auto simp: reconcileStanzaCreate_def setReplicaRepoReady_def upsertCondition_def
               split: list.splits)
    then show "take (length (log s) + 2) (log (snd (reconcileStanzaCreate env configHash s)))
               = log s @ [ListPods selector,
                          StanzaCreateExec (pod_Name pod) containerName configHash]"
      by (auto simp: l2)
    assume b: "StanzaCreate env (log s @ [ListPods selector]) (pod_Name pod) containerName
                 configHash = (False, None)"
    let ?s3 = "record_action (Event EventTypeNormal EventStanzasCreated
                ''pgBackRest stanza creation completed successfully'') ?s2"
    let ?s4 = "?s3\<lparr>cluster := (cluster ?s3)\<lparr>status_Repos :=
                 map (\<lambda>r. r\<lparr>StanzaCreated := True\<rparr>) (status_Repos (cluster ?s3))\<rparr>\<rparr>"
    from a b gate have "stanzaCreate_body env configHash s = ((False, None), ?s4)"
      by (simp add: stanzaCreate_body_def Let_def record_action_def)
    then have r: "reconcileStanzaCreate env configHash s = ((False, None), setReplicaRepoReady ?s4)"
      by (simp add: reconcileStanzaCreate_def)
    show "fst (reconcileStanzaCreate env configHash s) = (False, None)"
      by (simp add: r)
    show "list_all StanzaCreated
            (status_Repos (cluster (snd (reconcileStanzaCreate env configHash s))))"
      by (simp add: r setReplicaRepoReady_def upsertCondition_def record_action_def
               split: list.splits)
  }
  {
    assume a: "ClusterBootstrapped env
        \<and> repoStatusIndex replicaCreateRepoName (status_Repos (cluster s)) = Some i
        \<and> \<not> ReplicaCreateBackupComplete (status_Repos (cluster s) ! i)
        \<and> replicaRepoReady (status_Conditions (cluster s))
        \<and> getPGBackRestExecSelector env (cluster s) = Inr (selector, containerName)
        \<and> Client_List_Pods env (log s) selector = Inr [pod]
        \<and> (case jobs of
              [] \<Rightarrow> spec_Repos (cluster s) \<noteq> []
            | job # _ \<Rightarrow>
                \<not> obj_JobCompleted job
                \<and> \<not> jobDrifted configHash replicaCreateRepoName
                      (if DedicatedRepoHostEnabled env then CMRepoKey env
                       else getLabel (pod_Labels pod) LabelInstance @ ''.conf'') job)
        \<and> AddConfigsToPod env
             (if DedicatedRepoHostEnabled env then CMRepoKey env
              else getLabel (pod_Labels pod) LabelInstance @ ''.conf'') = None
        \<and> (\<forall>obj. SetControllerReference env obj = None)"
    define configName where
      "configName = (if DedicatedRepoHostEnabled env then CMRepoKey env
                     else getLabel (pod_Labels pod) LabelInstance @ ''.conf'')"
    let ?s1 = "record_action (ListPods selector) s"
    let ?job = "case jobs of [] \<Rightarrow> None | job # _ \<Rightarrow> Some job"
    from a have add: "AddConfigsToPod env configName = None"
      and ctl: "\<And>obj. SetControllerReference env obj = None"
      and js: "case jobs of
                 [] \<Rightarrow> spec_Repos (cluster s) \<noteq> []
               | job # _ \<Rightarrow> \<not> obj_JobCompleted job
                   \<and> \<not> jobDrifted configHash replicaCreateRepoName configName job"
      unfolding configName_def by simp_all
    from add ctl js obtain applied spec where
      c: "createBackupJob env (Some serviceAccountName) configHash replicaCreateRepoName
            configName selector containerName ?job ?s1
          = (Return (apply_Job env (log ?s1) applied spec),
             record_action (ApplyJob applied spec) ?s1)"
      by (cases jobs; cases "spec_Repos (cluster s)")
         (simp_all add: createBackupJob_def backupJobIntent_def generateBackupJobSpecIntent_def
                    Let_def record_action_def)
    from a gate js have e: "(case jobs of
             [] \<Rightarrow> (None, ?s1)
           | job # _ \<Rightarrow> reconcileExistingJob env configHash replicaCreateRepoName
               configName True True i job ?s1) = (None, ?s1)"
      by (cases jobs) (simp_all add: reconcileExistingJob_def Let_def)
    from a have pre: "ClusterBootstrapped env"
        "\<not> ReplicaCreateBackupComplete (status_Repos (cluster s) ! i)"
        "replicaRepoReady (status_Conditions (cluster s))"
        "getPGBackRestExecSelector env (cluster s) = Inr (selector, containerName)"
        "Client_List_Pods env (log s) selector = Inr [pod]"
      by simp_all
    from pre gate c e have
      "replicaCreateBackup_body env jobs (Some serviceAccountName) configHash
         replicaCreateRepoName (Some i) s
       = (Return (apply_Job env (log ?s1) applied spec),
          record_action (ApplyJob applied spec) ?s1)"
      unfolding configName_def
      by (cases jobs) (simp_all add: replicaCreateBackup_body_def Let_def)
    with a have "log (snd (reconcileReplicaCreateBackup env jobs (Some serviceAccountName)
                              configHash replicaCreateRepoName s))
              = log s @ [ListPods selector, ApplyJob applied spec,
                 LedgerUpsert (replicaCreateCondition (cluster s) (Some i))]"
      by (simp add: reconcileReplicaCreateBackup_def setReplicaCreate_def upsertCondition_def
                    record_action_def replicaCreateCondition_def)
    then show "\<exists>applied spec.
              log (snd (reconcileReplicaCreateBackup env jobs (Some serviceAccountName)
                              configHash replicaCreateRepoName s))
              = log s @ [ListPods selector, ApplyJob applied spec,
                 LedgerUpsert (replicaCreateCondition (cluster s) (Some i))]"
      by blast
  }
qed

theorem host_gate_absent_condition_witness:
  "FindStatusCondition (status_Conditions (cluster example_state)) ConditionRepoHostReady = None
   \<and> cond_Type example_host_ready = ConditionRepoHostReady
   \<and> cond_Status example_host_ready = ConditionTrue
   \<and> dedicatedRepoReady (status_Conditions (cluster example_state))
   \<and> list_all StanzaCreated
        (status_Repos (cluster (snd (reconcileStanzaCreate example_env ''hash1'' example_state))))
   \<and> reconcileStanzaCreate example_env ''hash1'' (withCondition example_host_ready example_state)
       = (fst (reconcileStanzaCreate example_env ''hash1'' example_state),
          withCondition example_host_ready
            (snd (reconcileStanzaCreate example_env ''hash1'' example_state)))
   \<and> FindStatusCondition
        (status_Conditions (cluster (snd (reconcileStanzaCreate example_env ''hash1''
                                            example_state))))
        ConditionRepoHostReady = None
   \<and> \<not> obj_JobCompleted example_job
   \<and> \<not> jobDrifted ''hash1'' ''repo1'' ''hippo-instance1-abcd.conf'' example_job
   \<and> (\<exists>applied spec.
        log (snd (reconcileReplicaCreateBackup example_env [example_job]
                    (Some ''hippo-pgbackrest'') ''hash1'' ''repo1''
                    (snd (reconcileStanzaCreate example_env ''hash1'' example_state))))
        = log (snd (reconcileStanzaCreate example_env ''hash1'' example_state)) @
          [ListPods (ClusterPrimarySelector ''hippo''), ApplyJob applied spec,
           LedgerUpsert (replicaCreateCondition
             (cluster (snd (reconcileStanzaCreate example_env ''hash1'' example_state)))
             (Some 0))])
   \<and> reconcileReplicaCreateBackup example_env [example_job]
        (Some ''hippo-pgbackrest'') ''hash1'' ''repo1''
        (withCondition example_host_ready
           (snd (reconcileStanzaCreate example_env ''hash1'' example_state)))
       = (fst (reconcileReplicaCreateBackup example_env [example_job]
                 (Some ''hippo-pgbackrest'') ''hash1'' ''repo1''
                 (snd (reconcileStanzaCreate example_env ''hash1'' example_state))),
          withCondition example_host_ready
            (snd (reconcileReplicaCreateBackup example_env [example_job]
                    (Some ''hippo-pgbackrest'') ''hash1'' ''repo1''
                    (snd (reconcileStanzaCreate example_env ''hash1'' example_state)))))"
proof -
  let ?s = "snd (reconcileStanzaCreate example_env ''hash1'' example_state)"
  have h0: "FindStatusCondition (status_Conditions (cluster example_state))
              ConditionRepoHostReady = None"
    by (simp add: example_defs condition_defs)
  have r1: "cond_Type example_host_ready = ConditionRepoHostReady"
    by (simp add: example_host_ready_def)
  have r2: "cond_Status example_host_ready = ConditionTrue"
    by (simp add: example_host_ready_def)
  have h1: "ClusterBootstrapped example_env" by (simp add: example_defs)
  have h3: "\<not> list_all StanzaCreated (status_Repos (cluster example_state))"
    by (simp add: example_defs)
  have h4: "getPGBackRestExecSelector example_env (cluster example_state)
              = Inr (ClusterPrimarySelector ''hippo'', ContainerDatabase)"
    by (simp add: example_defs getPGBackRestExecSelector_def)
  have h5: "Client_List_Pods example_env (log example_state) (ClusterPrimarySelector ''hippo'')
              = Inr [example_pod]"
    by (simp add: example_defs)
  have h6: "StanzaCreate example_env
              (log example_state @ [ListPods (ClusterPrimarySelector ''hippo'')])
              (pod_Name example_pod) ContainerDatabase ''hash1'' = (False, None)"
    by (simp add: example_defs)
  note t = host_gate_absent_condition[OF h0 r1 r2, of example_env "''hash1''" "[]" None "[]"
             "ClusterPrimarySelector ''hippo''" ContainerDatabase example_pod]
  from t have a: "dedicatedRepoReady (status_Conditions (cluster example_state))"
    by blast
  from t h1 h3 h4 h5 h6 have b: "list_all StanzaCreated (status_Repos (cluster ?s))"
    by blast
  from t have b2: "reconcileStanzaCreate example_env ''hash1''
         (withCondition example_host_ready example_state)
       = (fst (reconcileStanzaCreate example_env ''hash1'' example_state),
          withCondition example_host_ready ?s)"
    by blast
  have g0: "FindStatusCondition (status_Conditions (cluster ?s)) ConditionRepoHostReady = None"
    by (simp add: example_defs stanza_defs condition_defs)
  have g2: "repoStatusIndex ''repo1'' (status_Repos (cluster ?s)) = Some 0"
    by (simp add: example_defs stanza_defs condition_defs)
  have g3: "\<not> ReplicaCreateBackupComplete (status_Repos (cluster ?s) ! 0)"
    by (simp add: example_defs stanza_defs condition_defs)
  have g4: "replicaRepoReady (status_Conditions (cluster ?s))"
    by (simp add: example_defs stanza_defs condition_defs replicaRepoReady_def)
  have g5: "getPGBackRestExecSelector example_env (cluster ?s)
              = Inr (ClusterPrimarySelector ''hippo'', ContainerDatabase)"
    by (simp add: example_defs stanza_defs condition_defs)
  have g6: "Client_List_Pods example_env (log ?s) (ClusterPrimarySelector ''hippo'')
              = Inr [example_pod]"
    by (simp add: example_defs)
  have j1: "\<not> obj_JobCompleted example_job" by (simp add: example_job_def)
  have j2: "\<not> jobDrifted ''hash1'' ''repo1'' ''hippo-instance1-abcd.conf'' example_job"
    by (simp add: jobDrifted_def example_job_def getLabel_def getAnnotation_def)
  have g7: "case [example_job] of
              [] \<Rightarrow> spec_Repos (cluster ?s) \<noteq> []
            | job # _ \<Rightarrow>
                \<not> obj_JobCompleted job
                \<and> \<not> jobDrifted ''hash1'' ''repo1''
                      (if DedicatedRepoHostEnabled example_env then CMRepoKey example_env
                       else getLabel (pod_Labels example_pod) LabelInstance @ ''.conf'') job"
    using j1 j2 by (simp add: example_defs getLabel_def)
  have g8: "AddConfigsToPod example_env
             (if DedicatedRepoHostEnabled example_env then CMRepoKey example_env
              else getLabel (pod_Labels example_pod) LabelInstance @ ''.conf'') = None"
    by (simp add: example_defs)
  have g9: "\<forall>obj. SetControllerReference example_env obj = None"
    by (simp add: example_defs)
  note u = host_gate_absent_condition[OF g0 r1 r2, of example_env "''hash1''" "[example_job]"
             "Some ''hippo-pgbackrest''" "''repo1''"
             "ClusterPrimarySelector ''hippo''" ContainerDatabase example_pod 0
             "''hippo-pgbackrest''"]
  from u h1 g2 g3 g4 g5 g6 g7 g8 g9 have c: "\<exists>applied spec.
        log (snd (reconcileReplicaCreateBackup example_env [example_job]
                    (Some ''hippo-pgbackrest'') ''hash1'' ''repo1'' ?s))
        = log ?s @ [ListPods (ClusterPrimarySelector ''hippo''), ApplyJob applied spec,
           LedgerUpsert (replicaCreateCondition (cluster ?s) (Some 0))]"
    by blast
  from u have d: "reconcileReplicaCreateBackup example_env [example_job]
        (Some ''hippo-pgbackrest'') ''hash1'' ''repo1'' (withCondition example_host_ready ?s)
       = (fst (reconcileReplicaCreateBackup example_env [example_job]
                 (Some ''hippo-pgbackrest'') ''hash1'' ''repo1'' ?s),
          withCondition example_host_ready
            (snd (reconcileReplicaCreateBackup example_env [example_job]
                    (Some ''hippo-pgbackrest'') ''hash1'' ''repo1'' ?s)))"
    by blast
  from h0 r1 r2 a b b2 g0 j1 j2 c d show ?thesis by blast
qed

section \<open>Properties of the ownership sweep and of the cycle\<close>

text \<open>
  The sweep leaves the cluster as it is and only lists and deletes. A delete of the sweep
  that the API server refuses is the last action of the sweep, and its error is what the
  sweep returns.
\<close>

lemma cleanupLoop_frame:
  "cluster (snd (cleanupLoop env c owned kept s)) = cluster s \<and>
   (\<exists>new. log (snd (cleanupLoop env c owned kept s)) = log s @ new \<and> list_all sweepAction new)"
proof (induction owned arbitrary: kept s)
  case Nil
  then show ?case by simp
next
  case (Cons x owned)
  show ?case
  proof (cases "ownedNoDelete env c x")
    case Nil
    show ?thesis
    proof (cases "Client_Delete env (log s) x")
      case None
      from Cons.IH[of kept "record_action (Delete x) s"] Nil None show ?thesis
        by (auto simp: record_action_def)
    next
      case (Some e)
      with Nil show ?thesis by (simp add: record_action_def)
    qed
  next
    case (Cons k ks)
    with Cons.IH[of "kept @ k # ks" s] show ?thesis by simp
  qed
qed

lemma resourcesLoop_frame:
  "cluster (snd (resourcesLoop env c kinds rr s)) = cluster s \<and>
   (\<exists>new. log (snd (resourcesLoop env c kinds rr s)) = log s @ new \<and> list_all sweepAction new)"
proof (induction kinds arbitrary: rr s)
  case Nil
  then show ?case by simp
next
  case (Cons kind kinds)
  let ?s1 = "record_action (ListObjects kind) s"
  have s1: "cluster ?s1 = cluster s" "log ?s1 = log s @ [ListObjects kind]"
    by (simp_all add: record_action_def)
  show ?case
  proof (cases "Client_List env (log s) kind")
    case (Inl e)
    with s1 show ?thesis by (simp add: Let_def)
  next
    case (Inr items)
    show ?thesis
    proof (cases "items = []")
      case True
      from Cons.IH[of rr ?s1] obtain new where
        "cluster (snd (resourcesLoop env c kinds rr ?s1)) = cluster s"
        "log (snd (resourcesLoop env c kinds rr ?s1)) = log s @ ListObjects kind # new"
        "list_all sweepAction new"
        using s1 by auto
      with Inr True show ?thesis by (auto simp: Let_def)
    next
      case False
      obtain r s2 where cl: "cleanupRepoResources (env.truncate env) c
                               (filter obj_ControlledBy items) ?s1 = (r, s2)"
        by (cases "cleanupRepoResources (env.truncate env) c (filter obj_ControlledBy items) ?s1")
      from cleanupLoop_frame[of "env.truncate env" c "filter obj_ControlledBy items" "[]" ?s1] cl
      obtain new where s2: "cluster s2 = cluster s" "log s2 = log s @ ListObjects kind # new"
          "list_all sweepAction new"
        using s1 by (auto simp: cleanupRepoResources_def)
      show ?thesis
      proof (cases r)
        case (Inl e)
        with Inr False cl s2 show ?thesis by (auto simp: Let_def)
      next
        case r: (Inr owned)
        show ?thesis
        proof (cases "unstructuredToRepoResources env kind rr owned")
          case (Inl e)
          with Inr False cl r s2 show ?thesis by (auto simp: Let_def)
        next
          case (Inr rr')
          from Cons.IH[of rr' s2] obtain new' where
            "cluster (snd (resourcesLoop env c kinds rr' s2)) = cluster s"
            "log (snd (resourcesLoop env c kinds rr' s2)) = log s @ ListObjects kind # new @ new'"
            "list_all sweepAction new'"
            using s2 by auto
          with \<open>Client_List env (log s) kind = Inr items\<close> False cl r Inr s2 show ?thesis
            by (auto simp: Let_def)
        qed
      qed
    qed
  qed
qed

lemma delete_in_append:
  assumes "pre @ Delete obj # post = new1 @ new2"
  shows "(\<exists>post1. new1 = pre @ Delete obj # post1 \<and> post = post1 @ new2)
         \<or> (\<exists>pre2. pre = new1 @ pre2 \<and> new2 = pre2 @ Delete obj # post)"
  using assms by (auto simp: append_eq_append_conv2 append_eq_Cons_conv Cons_eq_append_conv)

lemma cleanupLoop_failed_delete:
  assumes "cleanupLoop env c owned kept s = (res, s')"
      and "log s' = log s @ pre @ Delete obj # post"
      and "Client_Delete env (log s @ pre) obj = Some err"
  shows "post = [] \<and> res = Inl err"
  using assms
proof (induction owned arbitrary: kept s pre)
  case Nil
  then show ?case by simp
next
  case (Cons x owned)
  show ?case
  proof (cases "ownedNoDelete env c x")
    case Nil
    show ?thesis
    proof (cases "Client_Delete env (log s) x")
      case (Some e)
      with Nil Cons.prems(1) have r: "res = Inl e" "log s' = log s @ [Delete x]"
        by (auto simp: record_action_def)
      with Cons.prems(2) have "pre @ Delete obj # post = [Delete x]" by simp
      then have "pre = [] \<and> post = [] \<and> obj = x"
        by (cases pre) auto
      with Some Cons.prems(3) r show ?thesis by simp
    next
      case None
      let ?s1 = "record_action (Delete x) s"
      from Nil None Cons.prems(1) have rec: "cleanupLoop env c owned kept ?s1 = (res, s')"
        by simp
      from cleanupLoop_frame[of env c owned kept ?s1] rec obtain new where
        new: "log s' = log s @ [Delete x] @ new" by (auto simp: record_action_def)
      with Cons.prems(2) have "pre @ Delete obj # post = [Delete x] @ new" by simp
      from delete_in_append[OF this] show ?thesis
      proof
        assume "\<exists>post1. [Delete x] = pre @ Delete obj # post1 \<and> post = post1 @ new"
        then have "pre = [] \<and> obj = x" by (cases pre) auto
        with None Cons.prems(3) show ?thesis by simp
      next
        assume "\<exists>pre2. pre = [Delete x] @ pre2 \<and> new = pre2 @ Delete obj # post"
        then obtain pre2 where p: "pre = [Delete x] @ pre2" "new = pre2 @ Delete obj # post"
          by blast
        from new p have l: "log s' = log ?s1 @ pre2 @ Delete obj # post"
          by (simp add: record_action_def)
        from Cons.prems(3) p have d: "Client_Delete env (log ?s1 @ pre2) obj = Some err"
          by (simp add: record_action_def)
        from Cons.IH[OF rec l d] show ?thesis .
      qed
    qed
  next
    case (Cons k ks)
    with Cons.prems(1) have rec: "cleanupLoop env c owned (kept @ k # ks) s = (res, s')"
      by simp
    from Cons.IH[OF rec Cons.prems(2,3)] show ?thesis .
  qed
qed

lemma resourcesLoop_failed_delete:
  assumes "resourcesLoop env c kinds rr s = (res, s')"
      and "log s' = log s @ pre @ Delete obj # post"
      and "Client_Delete env (log s @ pre) obj = Some err"
  shows "post = [] \<and> res = Inl err"
  using assms
proof (induction kinds arbitrary: rr s pre)
  case Nil
  then show ?case by simp
next
  case (Cons kind kinds)
  let ?s1 = "record_action (ListObjects kind) s"
  have s1: "log ?s1 = log s @ [ListObjects kind]" by (simp add: record_action_def)
  have first: "\<exists>pre2. pre = [ListObjects kind] @ pre2 \<and> new = pre2 @ Delete obj # post"
    if "log s' = log s @ [ListObjects kind] @ new" for new
  proof -
    from that Cons.prems(2) have "pre @ Delete obj # post = [ListObjects kind] @ new" by simp
    from delete_in_append[OF this] show ?thesis
      by (auto simp: append_eq_Cons_conv Cons_eq_append_conv)
  qed
  show ?case
  proof (cases "Client_List env (log s) kind")
    case (Inl e)
    with Cons.prems(1) have "log s' = log s @ [ListObjects kind] @ []"
      by (auto simp: Let_def record_action_def)
    from first[OF this] show ?thesis by simp
  next
    case (Inr items)
    show ?thesis
    proof (cases "items = []")
      case True
      with Inr Cons.prems(1) have rec: "resourcesLoop env c kinds rr ?s1 = (res, s')"
        by (simp add: Let_def)
      from resourcesLoop_frame[of env c kinds rr ?s1] rec obtain new where
        new: "log s' = log s @ [ListObjects kind] @ new" by (auto simp: record_action_def)
      from first[OF new] obtain pre2 where
        p: "pre = [ListObjects kind] @ pre2" "new = pre2 @ Delete obj # post" by blast
      from new p have l: "log s' = log ?s1 @ pre2 @ Delete obj # post"
        by (simp add: record_action_def)
      from Cons.prems(3) p have d: "Client_Delete env (log ?s1 @ pre2) obj = Some err"
        by (simp add: record_action_def)
      from Cons.IH[OF rec l d] show ?thesis .
    next
      case False
      obtain r s2 where cl: "cleanupLoop (env.truncate env) c
                               (filter obj_ControlledBy items) [] ?s1 = (r, s2)"
        by (cases "cleanupLoop (env.truncate env) c (filter obj_ControlledBy items) [] ?s1")
      from cleanupLoop_frame[of "env.truncate env" c "filter obj_ControlledBy items" "[]" ?s1] cl
      obtain new1 where n1: "log s2 = log ?s1 @ new1" by auto
      have trunc: "Client_Delete (env.truncate env) = Client_Delete env"
        by (simp add: env.truncate_def)
      have inner: "post1 = [] \<and> r = Inl err"
        if "new1 = pre2 @ Delete obj # post1" "pre = [ListObjects kind] @ pre2" for pre2 post1
      proof -
        from that n1 have l: "log s2 = log ?s1 @ pre2 @ Delete obj # post1" by simp
        from Cons.prems(3) that have
          d: "Client_Delete (env.truncate env) (log ?s1 @ pre2) obj = Some err"
          by (simp add: record_action_def trunc)
        from cleanupLoop_failed_delete[OF cl l d] show ?thesis .
      qed
      show ?thesis
      proof (cases r)
        case (Inl e)
        with Inr False cl Cons.prems(1) have e: "res = Inl e" "s' = s2"
          by (auto simp: Let_def cleanupRepoResources_def)
        with n1 have "log s' = log s @ [ListObjects kind] @ new1"
          by (simp add: record_action_def)
        from first[OF this] obtain pre2 where
          p: "pre = [ListObjects kind] @ pre2" "new1 = pre2 @ Delete obj # post" by blast
        from inner[OF p(2,1)] Inl e show ?thesis by simp
      next
        case r: (Inr owned)
        show ?thesis
        proof (cases "unstructuredToRepoResources env kind rr owned")
          case (Inl e)
          with Inr False cl r Cons.prems(1) have e: "s' = s2"
            by (auto simp: Let_def cleanupRepoResources_def)
          with n1 have "log s' = log s @ [ListObjects kind] @ new1"
            by (simp add: record_action_def)
          from first[OF this] obtain pre2 where
            p: "pre = [ListObjects kind] @ pre2" "new1 = pre2 @ Delete obj # post" by blast
          from inner[OF p(2,1)] r show ?thesis by simp
        next
          case (Inr rr')
          with \<open>Client_List env (log s) kind = Inr items\<close> False cl r Cons.prems(1)
          have rec: "resourcesLoop env c kinds rr' s2 = (res, s')"
            by (auto simp: Let_def cleanupRepoResources_def)
          from resourcesLoop_frame[of env c kinds rr' s2] rec obtain new2 where
            n2: "log s' = log s2 @ new2" by auto
          with n1 have "log s' = log s @ [ListObjects kind] @ (new1 @ new2)"
            by (simp add: record_action_def)
          from first[OF this] obtain pre2 where
            p: "pre = [ListObjects kind] @ pre2" "new1 @ new2 = pre2 @ Delete obj # post"
            by blast
          from delete_in_append[OF p(2)[symmetric]] show ?thesis
          proof
            assume "\<exists>post1. new1 = pre2 @ Delete obj # post1 \<and> post = post1 @ new2"
            then obtain post1 where "new1 = pre2 @ Delete obj # post1" by blast
            from inner[OF this p(1)] r show ?thesis by simp
          next
            assume "\<exists>pre3. pre2 = new1 @ pre3 \<and> new2 = pre3 @ Delete obj # post"
            then obtain pre3 where q: "pre2 = new1 @ pre3" "new2 = pre3 @ Delete obj # post"
              by blast
            from n2 q have l: "log s' = log s2 @ pre3 @ Delete obj # post" by simp
            from Cons.prems(3) p(1) q(1) n1 have
              d: "Client_Delete env (log s2 @ pre3) obj = Some err"
              by (simp add: record_action_def)
            from Cons.IH[OF rec l d] show ?thesis .
          qed
        qed
      qed
    qed
  qed
qed


text \<open>
  Claim C3, as stated, has the sub-steps after the ownership sweep run although a delete
  of the sweep has failed. \<^verbatim>\<open>reconcilePGBackRest\<close> returns as soon as
  \<^verbatim>\<open>getPGBackRestResources\<close> returns an error: here the delete of a stale volume is
  refused, the cycle returns the empty result with that error, and its trace ends with the
  delete: no repository, configuration, RBAC, stanza, cron-job or backup step is entered.
  With the delete accepted, the same cycle does enter the stanza step.
\<close>

theorem reconcilePGBackRest_failed_delete_returns_early:
  "Client_Delete example_failing_env
      [SubStep ''getPGBackRestResources'', ListObjects ''ConfigMapList'',
       ListObjects ''JobList'', ListObjects ''PersistentVolumeClaimList'']
      example_stale_volume = Some (Error ''forbidden'')
   \<and> fst (reconcilePGBackRest example_failing_env [] example_state)
       = Return (\<lparr>Requeue = False, RequeueAfter = 0\<rparr>, Some (Error ''forbidden''))
   \<and> log (snd (reconcilePGBackRest example_failing_env [] example_state))
       = [SubStep ''getPGBackRestResources'', ListObjects ''ConfigMapList'',
          ListObjects ''JobList'', ListObjects ''PersistentVolumeClaimList'',
          Delete example_stale_volume]
   \<and> SubStep ''reconcileStanzaCreate''
       \<in> set (log (snd (reconcilePGBackRest
                  (example_failing_env\<lparr>Client_Delete := (\<lambda>_ _. None)\<rparr>) [] example_state)))"
  by (simp add: cycle_defs example_defs stanza_defs backup_defs condition_defs
        reconcileSteps_def reconcileHostStep_def reconcileRepos_def getRepoVolumeStatus_def
        repoVolStatus_def extRepoStatus_def requeueNow_def requeueAfter10s_def)

text \<open>
  Claim C3, amended. \<^verbatim>\<open>reconcilePGBackRest\<close> first allocates the pgBackRest status when
  that is nil and then runs the ownership sweep. Whenever the trace of the sweep holds a
  delete that the API server, asked at the trace up to that delete, answers with an
  error, that delete is the last action of the sweep, \<^verbatim>\<open>getPGBackRestResources\<close> returns
  that very error, and \<^verbatim>\<open>reconcilePGBackRest\<close> returns at once, in the state the sweep
  left, with the empty result and that error. The cycle has then only listed and
  deleted: none of the later sub-steps (repository host, repositories, configuration,
  RBAC, stanza creation, cron jobs, replica-create backup) is entered, and the cluster is
  as it was apart from the allocation of the status.
\<close>

theorem reconcilePGBackRest_delete_failure_ends_cycle:
  assumes "getPGBackRestResources env
             (record_action (SubStep ''getPGBackRestResources'') (allocatePGBackRestStatus s))
           = (res, s1)"
      and "log s1 = log s @ SubStep ''getPGBackRestResources'' # pre @ Delete obj # post"
      and "Client_Delete env (log s @ SubStep ''getPGBackRestResources'' # pre) obj = Some err"
  shows "post = [] \<and> res = Inl err
         \<and> reconcilePGBackRest env instanceNames s = (Return (emptyResult, Some err), s1)
         \<and> cluster s1 = cluster (allocatePGBackRestStatus s)
         \<and> list_all sweepAction pre"
proof -
  let ?s0 = "record_action (SubStep ''getPGBackRestResources'') (allocatePGBackRestStatus s)"
  let ?rr = "\<lparr>cronjobs = [], replicaCreateBackupJobs = [], hosts = [], pvcs = [],
        sshConfig = None, sshSecret = None\<rparr>"
  have l0: "log ?s0 = log s @ [SubStep ''getPGBackRestResources'']"
    by (simp add: record_action_def allocatePGBackRestStatus_def)
  have c0: "cluster ?s0 = cluster (allocatePGBackRestStatus s)"
    by (simp add: record_action_def)
  from assms(1) have loop: "resourcesLoop env (cluster ?s0) gvks ?rr ?s0 = (res, s1)"
    by (simp add: getPGBackRestResources_def)
  from assms(2) l0 have l: "log s1 = log ?s0 @ pre @ Delete obj # post" by simp
  from assms(3) l0 have d: "Client_Delete env (log ?s0 @ pre) obj = Some err" by simp
  from resourcesLoop_failed_delete[OF loop l d] have a: "post = []" "res = Inl err"
    by simp_all
  from resourcesLoop_frame[of env "cluster ?s0" gvks ?rr ?s0] loop obtain new where
    f: "cluster s1 = cluster ?s0" "log s1 = log ?s0 @ new" "list_all sweepAction new"
    by auto
  from f(2) l have "new = pre @ Delete obj # post" by simp
  with f(3) have p: "list_all sweepAction pre" by simp
  from assms(1) a(2) have
    "reconcilePGBackRest env instanceNames s = (Return (emptyResult, Some err), s1)"
    by (simp add: reconcilePGBackRest_def Let_def)
  with a f(1) c0 p show ?thesis by simp
qed

theorem reconcilePGBackRest_delete_failure_ends_cycle_witness:
  "getPGBackRestResources example_conflict_env
      (record_action (SubStep ''getPGBackRestResources'')
         (allocatePGBackRestStatus example_new_state))
    = (Inl (Error ''conflict''),
       \<lparr>cluster = example_cluster\<lparr>status_Repos := [], status_PGBackRest_nil := False\<rparr>,
        log = [SubStep ''getPGBackRestResources'', ListObjects ''ConfigMapList'',
               ListObjects ''JobList'', ListObjects ''PersistentVolumeClaimList'',
               Delete example_stale_volume]\<rparr>)
   \<and> Client_Delete example_conflict_env
        [SubStep ''getPGBackRestResources'', ListObjects ''ConfigMapList'',
         ListObjects ''JobList'', ListObjects ''PersistentVolumeClaimList'']
        example_stale_volume = Some (Error ''conflict'')
   \<and> Client_Delete example_conflict_env
        [SubStep ''getPGBackRestResources'', ListObjects ''ConfigMapList'',
         ListObjects ''JobList'', ListObjects ''PersistentVolumeClaimList'',
         Delete example_stale_volume]
        example_stale_volume = None
   \<and> reconcilePGBackRest example_conflict_env [] example_new_state
       = (Return (emptyResult, Some (Error ''conflict'')),
          \<lparr>cluster = example_cluster\<lparr>status_Repos := [], status_PGBackRest_nil := False\<rparr>,
           log = [SubStep ''getPGBackRestResources'', ListObjects ''ConfigMapList'',
                  ListObjects ''JobList'', ListObjects ''PersistentVolumeClaimList'',
                  Delete example_stale_volume]\<rparr>)
   \<and> status_PGBackRest_nil (cluster example_new_state)"
proof -
  let ?s1 = "\<lparr>cluster = example_cluster\<lparr>status_Repos := [], status_PGBackRest_nil := False\<rparr>,
        log = [SubStep ''getPGBackRestResources'', ListObjects ''ConfigMapList'',
               ListObjects ''JobList'', ListObjects ''PersistentVolumeClaimList'',
               Delete example_stale_volume]\<rparr>"
  let ?pre = "[ListObjects ''ConfigMapList'', ListObjects ''JobList'',
               ListObjects ''PersistentVolumeClaimList'']"
  have h1: "getPGBackRestResources example_conflict_env
      (record_action (SubStep ''getPGBackRestResources'')
         (allocatePGBackRestStatus example_new_state))
    = (Inl (Error ''conflict''), ?s1)"
    by (simp add: cycle_defs example_defs example_conflict_env_def example_new_state_def)
  have h2: "log ?s1 = log example_new_state @
              SubStep ''getPGBackRestResources'' # ?pre @ Delete example_stale_volume # []"
    by (simp add: example_new_state_def)
  have h3: "Client_Delete example_conflict_env
              (log example_new_state @ SubStep ''getPGBackRestResources'' # ?pre)
              example_stale_volume = Some (Error ''conflict'')"
    by (simp add: example_new_state_def example_conflict_env_def)
  have h4: "Client_Delete example_conflict_env
        [SubStep ''getPGBackRestResources'', ListObjects ''ConfigMapList'',
         ListObjects ''JobList'', ListObjects ''PersistentVolumeClaimList'',
         Delete example_stale_volume]
        example_stale_volume = None"
    by (simp add: example_conflict_env_def)
  have h5: "status_PGBackRest_nil (cluster example_new_state)"
    by (simp add: example_new_state_def)
  from reconcilePGBackRest_delete_failure_ends_cycle[OF h1 h2 h3, of "[]"]
  have r: "reconcilePGBackRest example_conflict_env [] example_new_state
       = (Return (emptyResult, Some (Error ''conflict'')), ?s1)"
    by blast
  from h3 have h3': "Client_Delete example_conflict_env
        [SubStep ''getPGBackRestResources'', ListObjects ''ConfigMapList'',
         ListObjects ''JobList'', ListObjects ''PersistentVolumeClaimList'']
        example_stale_volume = Some (Error ''conflict'')"
    by (simp add: example_new_state_def)
  from h1 h3' h4 r h5 show ?thesis by blast
qed

end
